theory Spec2Isabelle
  imports Complex_Main "HOL-Library.Word" "HOL-Library.Sublist"
begin

unbundle bit_operations_syntax

section \<open>Python values and strings\<close>

text \<open>
  The retrieval subsystem lives in \<^verbatim>\<open>backend/rag.py\<close>.  A Python \<^verbatim>\<open>str\<close> is
  modelled as a \<^typ>\<open>string\<close> whose characters are the code points below 256.
\<close>

datatype py_error = KeyError string

text \<open>Scalar values of metadata, database rows and JSON objects.\<close>

datatype pyval = PNone | PStr string | PInt int

function digits :: "nat \<Rightarrow> string" where
  "digits n = (if n < 10 then [char_of (48 + n)] else digits (n div 10) @ [char_of (48 + n mod 10)])"
  by pat_completeness auto
termination
  by (relation "measure id") auto

declare digits.simps [simp del]

text \<open>\<^verbatim>\<open>str(v)\<close>, as an f-string formats a value.\<close>

fun py_str :: "pyval \<Rightarrow> string" where
  "py_str PNone = ''None''"
| "py_str (PStr s) = s"
| "py_str (PInt i) = (if i < 0 then CHR ''-'' # digits (nat (- i)) else digits (nat i))"

text \<open>\<^verbatim>\<open>sep.join(xs)\<close>.\<close>

fun join :: "string \<Rightarrow> string list \<Rightarrow> string" where
  "join sep [] = []"
| "join sep [x] = x"
| "join sep (x # y # ys) = x @ sep @ join sep (y # ys)"

type_synonym byte = "8 word"

text \<open>\<^verbatim>\<open>s.encode()\<close>: UTF-8, one byte below U+0080 and two bytes up to U+00FF.\<close>

definition encode :: "string \<Rightarrow> byte list" where
  "encode s = concat (map (\<lambda>c. let b = (of_char c :: byte) in
       if b < 0x80 then [b] else [0xC0 OR drop_bit 6 b, 0x80 OR (b AND 0x3F)]) s)"

section \<open>MD5 (\<^verbatim>\<open>hashlib.md5(...).hexdigest()\<close>, RFC 1321)\<close>

type_synonym u32 = "32 word"

definition md5_s :: "nat list" where
  "md5_s = [7,12,17,22,7,12,17,22,7,12,17,22,7,12,17,22,
            5,9,14,20,5,9,14,20,5,9,14,20,5,9,14,20,
            4,11,16,23,4,11,16,23,4,11,16,23,4,11,16,23,
            6,10,15,21,6,10,15,21,6,10,15,21,6,10,15,21]"

definition md5_K :: "u32 list" where
  "md5_K = [0xd76aa478, 0xe8c7b756, 0x242070db, 0xc1bdceee,
            0xf57c0faf, 0x4787c62a, 0xa8304613, 0xfd469501,
            0x698098d8, 0x8b44f7af, 0xffff5bb1, 0x895cd7be,
            0x6b901122, 0xfd987193, 0xa679438e, 0x49b40821,
            0xf61e2562, 0xc040b340, 0x265e5a51, 0xe9b6c7aa,
            0xd62f105d, 0x02441453, 0xd8a1e681, 0xe7d3fbc8,
            0x21e1cde6, 0xc33707d6, 0xf4d50d87, 0x455a14ed,
            0xa9e3e905, 0xfcefa3f8, 0x676f02d9, 0x8d2a4c8a,
            0xfffa3942, 0x8771f681, 0x6d9d6122, 0xfde5380c,
            0xa4beea44, 0x4bdecfa9, 0xf6bb4b60, 0xbebfbc70,
            0x289b7ec6, 0xeaa127fa, 0xd4ef3085, 0x04881d05,
            0xd9d4d039, 0xe6db99e5, 0x1fa27cf8, 0xc4ac5665,
            0xf4292244, 0x432aff97, 0xab9423a7, 0xfc93a039,
            0x655b59c3, 0x8f0ccc92, 0xffeff47d, 0x85845dd1,
            0x6fa87e4f, 0xfe2ce6e0, 0xa3014314, 0x4e0811a1,
            0xf7537e82, 0xbd3af235, 0x2ad7d2bb, 0xeb86d391]"

definition rotl32 :: "u32 \<Rightarrow> nat \<Rightarrow> u32" where
  "rotl32 x n = (push_bit n x) OR (drop_bit (32 - n) x)"

fun md5_round :: "u32 list \<Rightarrow> nat \<Rightarrow> (u32 \<times> u32 \<times> u32 \<times> u32) \<Rightarrow> (u32 \<times> u32 \<times> u32 \<times> u32)" where
  "md5_round M i (A, B, C, D) =
     (let (F, g) =
        (if i < 16 then ((B AND C) OR (NOT B AND D), i)
         else if i < 32 then ((D AND B) OR (NOT D AND C), (5 * i + 1) mod 16)
         else if i < 48 then (B XOR C XOR D, (3 * i + 5) mod 16)
         else (C XOR (B OR NOT D), (7 * i) mod 16));
          F' = F + A + md5_K ! i + M ! g
      in (D, B + rotl32 F' (md5_s ! i), B, C))"

definition md5_block :: "(u32 \<times> u32 \<times> u32 \<times> u32) \<Rightarrow> u32 list \<Rightarrow> (u32 \<times> u32 \<times> u32 \<times> u32)" where
  "md5_block st M =
     (case st of (a0, b0, c0, d0) \<Rightarrow>
        (case fold (md5_round M) [0..<64] st of (A, B, C, D) \<Rightarrow>
           (a0 + A, b0 + B, c0 + C, d0 + D)))"

fun le_word :: "byte list \<Rightarrow> u32" where
  "le_word [] = 0"
| "le_word (b # bs) = ucast b + push_bit 8 (le_word bs)"

fun chunks :: "nat \<Rightarrow> nat \<Rightarrow> 'a list \<Rightarrow> 'a list list" where
  "chunks 0 n xs = []"
| "chunks (Suc fuel) n xs = (if xs = [] then [] else take n xs # chunks fuel n (drop n xs))"

definition chunks_of :: "nat \<Rightarrow> 'a list \<Rightarrow> 'a list list" where
  "chunks_of n xs = chunks (length xs) n xs"

definition le_bytes32 :: "u32 \<Rightarrow> byte list" where
  "le_bytes32 w = map (\<lambda>i. ucast (drop_bit (8 * i) w)) [0, 1, 2, 3]"

definition le_bytes64 :: "64 word \<Rightarrow> byte list" where
  "le_bytes64 w = map (\<lambda>i. ucast (drop_bit (8 * i) w)) [0, 1, 2, 3, 4, 5, 6, 7]"

definition md5_pad :: "byte list \<Rightarrow> byte list" where
  "md5_pad bs = bs @ [0x80] @ replicate ((119 - length bs mod 64) mod 64) 0
                   @ le_bytes64 (of_nat (8 * length bs))"

definition hex_byte :: "byte \<Rightarrow> string" where
  "hex_byte b = [''0123456789abcdef'' ! unat (drop_bit 4 b),
                 ''0123456789abcdef'' ! unat (b AND 0x0F)]"

definition md5_hexdigest :: "byte list \<Rightarrow> string" where
  "md5_hexdigest bs =
     (case fold (\<lambda>blk st. md5_block st (map le_word (chunks_of 4 blk)))
                (chunks_of 64 (md5_pad bs))
                (0x67452301, 0xefcdab89, 0x98badcfe, 0x10325476)
      of (a, b, c, d) \<Rightarrow>
        concat (map (\<lambda>w. concat (map hex_byte (le_bytes32 w))) [a, b, c, d]))"



section \<open>Document identity\<close>

type_synonym metadata = "string \<rightharpoonup> pyval"

record document =
  page_content :: string
  metadata :: metadata
  doc_id :: string

text \<open>\<^verbatim>\<open>metadata.get(key, '')\<close> inside an f-string.\<close>

definition md_get :: "metadata \<Rightarrow> string \<Rightarrow> string" where
  "md_get md key = (case md key of None \<Rightarrow> [] | Some v \<Rightarrow> py_str v)"

definition generate_doc_id :: "string \<Rightarrow> metadata \<Rightarrow> string" where
  "generate_doc_id content md =
     (let key = md_get md ''unit_code'' @ '':'' @ md_get md ''type'' @ '':'' @ take 100 content
      in md5_hexdigest (encode key))"

section \<open>Query expansion\<close>

definition QUERY_EXPANSIONS :: "(string \<times> string) list" where
  "QUERY_EXPANSIONS =
     [(''oop'', ''object-oriented programming''),
      (''db'', ''database''),
      (''ai'', ''artificial intelligence''),
      (''ml'', ''machine learning''),
      (''ds'', ''data science''),
      (''fe'', ''frontend''),
      (''be'', ''backend'')]"

text \<open>
  \<^verbatim>\<open>str.lower()\<close> on code points below 256: the ASCII capitals and the Latin-1
  capitals U+00C0 to U+00DE (without the multiplication sign U+00D7) move up by 32.
\<close>

definition lower_char :: "char \<Rightarrow> char" where
  "lower_char c =
     (let n = (of_char c :: nat)
      in if (65 \<le> n \<and> n \<le> 90) \<or> (192 \<le> n \<and> n \<le> 222 \<and> n \<noteq> 215)
         then char_of (n + 32) else c)"

definition lower :: "string \<Rightarrow> string" where
  "lower s = map lower_char s"

text \<open>
  \<^verbatim>\<open>str.upper()\<close>, which the program applies to the keys of the table only:
  the ASCII small letters move down by 32.
\<close>

definition upper_char :: "char \<Rightarrow> char" where
  "upper_char c =
     (let n = (of_char c :: nat)
      in if 97 \<le> n \<and> n \<le> 122 then char_of (n - 32) else c)"

definition upper :: "string \<Rightarrow> string" where
  "upper s = map upper_char s"

text \<open>\<^verbatim>\<open>sub in s\<close> on strings: \<open>sub\<close> occurs in \<open>s\<close> as a contiguous block.\<close>

fun contains :: "string \<Rightarrow> string \<Rightarrow> bool" where
  "contains [] sub = (sub = [])"
| "contains (c # cs) sub = (prefix sub (c # cs) \<or> contains cs sub)"

text \<open>
  \<^verbatim>\<open>s.replace(old, new)\<close>: the occurrences of \<open>old\<close> are found from the left
  and do not overlap; an empty \<open>old\<close> matches before every character and at the end.
\<close>

function replace :: "string \<Rightarrow> string \<Rightarrow> string \<Rightarrow> string" where
  "replace s old new =
     (if old = [] then new @ concat (map (\<lambda>c. c # new) s)
      else if s = [] then []
      else if prefix old s then new @ replace (drop (length old) s) old new
      else hd s # replace (tl s) old new)"
  by pat_completeness auto
termination
  by (relation "measure (\<lambda>(s, old, new). length s)") auto

declare replace.simps [simp del]

text \<open>The body of the loop of \<^verbatim>\<open>_expand_query\<close> for one entry of the table.\<close>

definition expand_step :: "string \<Rightarrow> string \<times> string \<Rightarrow> string \<Rightarrow> string" where
  "expand_step query_lower entry query =
     (case entry of (abbrev, full) \<Rightarrow>
        if contains query_lower abbrev
        then replace (replace query abbrev full) (upper abbrev) full
        else query)"

definition expand_query :: "string \<Rightarrow> string" where
  "expand_query query =
     (let query_lower = lower query
      in fold (expand_step query_lower) QUERY_EXPANSIONS query)"

section \<open>Floating point and scores\<close>

text \<open>
  A Python \<^verbatim>\<open>float\<close> is an IEEE double; the model keeps the real number it denotes.
  An arithmetic operation on doubles gives the exact result rounded to the nearest
  double, a tie going to the even significand: \<open>fl\<close> is that rounding, with 53 bits of
  significand above \<open>2\<^sup>-\<^sup>1\<^sup>0\<^sup>2\<^sup>2\<close> and the fixed spacing
  \<open>2\<^sup>-\<^sup>1\<^sup>0\<^sup>7\<^sup>4\<close> below.  Overflow to \<^verbatim>\<open>inf\<close>, and \<^verbatim>\<open>nan\<close>, are outside the model; no operation of
  \<^verbatim>\<open>_normalize_score\<close> overflows for a distance above \<open>-3.5e306\<close>.
\<close>

text \<open>The binary exponent \<open>e\<close> of a positive number, \<open>2\<^sup>e \<le> x < 2\<^sup>e\<^sup>+\<^sup>1\<close>.\<close>

function expo :: "real \<Rightarrow> int" where
  "expo x = (if 2 \<le> x then expo (x / 2) + 1
             else if 0 < x \<and> x < 1 then expo (2 * x) - 1
             else 0)"
  by pat_completeness auto
termination
proof (relation "measure (\<lambda>x. nat \<bar>\<lfloor>log 2 x\<rfloor>\<bar>)")
  show "wf (measure (\<lambda>x. nat \<bar>\<lfloor>log 2 x\<rfloor>\<bar>))" by simp
next
  fix x :: real
  assume "2 \<le> x"
  then have "log 2 (x / 2) = log 2 x - 1" "1 \<le> log 2 x"
    by (simp_all add: log_divide le_log_iff)
  then have "\<lfloor>log 2 (x / 2)\<rfloor> = \<lfloor>log 2 x\<rfloor> - 1" "1 \<le> \<lfloor>log 2 x\<rfloor>"
    by (simp_all add: le_floor_iff)
  then have "nat \<bar>\<lfloor>log 2 (x / 2)\<rfloor>\<bar> < nat \<bar>\<lfloor>log 2 x\<rfloor>\<bar>" by linarith
  then show "(x / 2, x) \<in> measure (\<lambda>x. nat \<bar>\<lfloor>log 2 x\<rfloor>\<bar>)" by simp
next
  fix x :: real
  assume "\<not> 2 \<le> x" "0 < x \<and> x < 1"
  then have "log 2 (2 * x) = log 2 x + 1" "log 2 x < 0"
    by (simp_all add: log_mult)
  then have "\<lfloor>log 2 (2 * x)\<rfloor> = \<lfloor>log 2 x\<rfloor> + 1" "\<lfloor>log 2 x\<rfloor> < 0"
    by (simp_all add: floor_less_iff)
  then have "nat \<bar>\<lfloor>log 2 (2 * x)\<rfloor>\<bar> < nat \<bar>\<lfloor>log 2 x\<rfloor>\<bar>" by linarith
  then show "(2 * x, x) \<in> measure (\<lambda>x. nat \<bar>\<lfloor>log 2 x\<rfloor>\<bar>)" by simp
qed

declare expo.simps [simp del]

text \<open>To the nearest integer, a tie going to the even one.\<close>

definition round_half_even :: "real \<Rightarrow> int" where
  "round_half_even x =
     (let f = \<lfloor>x\<rfloor>; r = x - of_int f
      in if r < 1 / 2 then f
         else if 1 / 2 < r then f + 1
         else if even f then f else f + 1)"

text \<open>The spacing of the doubles around \<open>x\<close>.\<close>

definition ulp :: "real \<Rightarrow> real" where
  "ulp x = 2 powi (max (- 1022) (expo \<bar>x\<bar>) - 52)"

definition fl :: "real \<Rightarrow> real" where
  "fl x = of_int (round_half_even (x / ulp x)) * ulp x"

text \<open>
  \<^verbatim>\<open>round(x, ndigits)\<close> of a double \<open>x\<close>: the exact value of \<open>x\<close> rounded to the
  nearest multiple of \<open>10\<^sup>-\<^sup>n\<close>, a tie going to the even neighbour.  The model
  keeps that decimal, which the double returned prints as.
\<close>

definition py_round :: "real \<Rightarrow> nat \<Rightarrow> real" where
  "py_round x ndigits = of_int (round_half_even (x * 10 ^ ndigits)) / 10 ^ ndigits"

definition normalize_score :: "real \<Rightarrow> real" where
  "normalize_score distance =
     (let clamped = min distance 2;
          similarity = max 0 (fl (100 * fl (1 - fl (clamped / 2))))
      in py_round similarity 2)"

section \<open>The retrieval system's state\<close>

text \<open>
  \<open>indexed_ids\<close> is the set of ids submitted in this process.  \<open>vector_store\<close>
  is the persistent collection of the index, a map from a document's id to the document.
\<close>

record rag_state =
  indexed_ids :: "string set"
  vector_store :: "string \<rightharpoonup> document"

text \<open>
  Modelled from the spec: the index itself (\<^verbatim>\<open>Chroma.add_documents\<close>) is a
  library outside the repository; the spec gives its add as an upsert, where a document
  whose id is present already overwrites the entry and never makes a second one.
\<close>

definition add_documents :: "(string \<rightharpoonup> document) \<Rightarrow> document list \<Rightarrow> (string \<rightharpoonup> document)" where
  "add_documents store documents = fold (\<lambda>d m. m(doc_id d \<mapsto> d)) documents store"

text \<open>A new process: \<^verbatim>\<open>__init__\<close> opens the persisted collection with an empty set of ids.\<close>

definition restart :: "rag_state \<Rightarrow> rag_state" where
  "restart s = s\<lparr>indexed_ids := {}\<rparr>"

section \<open>Ingestion\<close>

text \<open>
  A source record (a row of \<^verbatim>\<open>get_all_units()\<close>, an object of a JSON file): its
  scalar fields and its list fields, by name.  A field that is absent maps to \<open>None\<close>.
\<close>

record source_record =
  scalar_fields :: "string \<rightharpoonup> pyval"
  list_fields :: "string \<rightharpoonup> string list"

text \<open>\<^verbatim>\<open>item[key]\<close> raises \<^verbatim>\<open>KeyError\<close>; \<^verbatim>\<open>item.get(key, default)\<close> does not.\<close>

definition scalar_item :: "source_record \<Rightarrow> string \<Rightarrow> py_error + pyval" where
  "scalar_item item key = (case scalar_fields item key of None \<Rightarrow> Inl (KeyError key) | Some v \<Rightarrow> Inr v)"

definition list_item :: "source_record \<Rightarrow> string \<Rightarrow> py_error + string list" where
  "list_item item key = (case list_fields item key of None \<Rightarrow> Inl (KeyError key) | Some v \<Rightarrow> Inr v)"

definition scalar_get :: "source_record \<Rightarrow> string \<Rightarrow> string \<Rightarrow> string" where
  "scalar_get item key dflt = (case scalar_fields item key of None \<Rightarrow> dflt | Some v \<Rightarrow> py_str v)"

definition list_get :: "source_record \<Rightarrow> string \<Rightarrow> string list" where
  "list_get item key = (case list_fields item key of None \<Rightarrow> [] | Some v \<Rightarrow> v)"

text \<open>
  The block every ingest function runs for a candidate document: skip it when its id is
  in \<open>indexed_ids\<close>, otherwise append it to \<open>documents\<close> and add the id.
  The pair is \<open>(indexed_ids, documents)\<close>.
\<close>

type_synonym pending = "string set \<times> document list"

definition stage :: "string \<Rightarrow> metadata \<Rightarrow> pending \<Rightarrow> pending" where
  "stage text md p =
     (case p of (ids, documents) \<Rightarrow>
        let i = generate_doc_id text md
        in if i \<notin> ids
           then (insert i ids, documents @ [\<lparr>page_content = text, metadata = md, doc_id = i\<rparr>])
           else (ids, documents))"

text \<open>
  The end of every ingest function.  An exception leaves the loop with the ids added so
  far and before the documents are submitted; otherwise a non-empty batch is submitted.
\<close>

definition finish :: "rag_state \<Rightarrow> py_error option \<times> pending \<Rightarrow> py_error option \<times> rag_state" where
  "finish s r =
     (case r of
        (Some e, (ids, documents)) \<Rightarrow> (Some e, s\<lparr>indexed_ids := ids\<rparr>)
      | (None, (ids, documents)) \<Rightarrow>
          (None, \<lparr>indexed_ids = ids,
                  vector_store = (if documents \<noteq> [] then add_documents (vector_store s) documents
                                  else vector_store s)\<rparr>))"

subsection \<open>Units\<close>

definition unit_desc_text :: "string \<Rightarrow> source_record \<Rightarrow> py_error + string" where
  "unit_desc_text unit_code unit =
     (let prereq_list = list_get unit ''prerequisites'';
          prereq_text = (if prereq_list \<noteq> [] then join '', '' prereq_list
                         else scalar_get unit ''raw_prerequisites'' ''None'')
      in case scalar_item unit ''title'' of Inl e \<Rightarrow> Inl e | Inr title \<Rightarrow>
         (case scalar_item unit ''description'' of Inl e \<Rightarrow> Inl e | Inr description \<Rightarrow>
            Inr (''Unit Code: '' @ unit_code @ [CHR 0x0A] @ ''Title: '' @ py_str title @ [CHR 0x0A]
                 @ ''Description: '' @ py_str description @ [CHR 0x0A]
                 @ ''Prerequisites: '' @ prereq_text @ [CHR 0x0A]
                 @ ''Credit Points: '' @ scalar_get unit ''credit_points'' ''N/A'')))"

definition unit_metadata :: "string \<Rightarrow> metadata" where
  "unit_metadata unit_code =
     [''source'' \<mapsto> PStr ''unit_guide'', ''type'' \<mapsto> PStr ''description'',
      ''unit_code'' \<mapsto> PStr unit_code]"

definition lo_text :: "string \<Rightarrow> nat \<Rightarrow> string \<Rightarrow> string" where
  "lo_text unit_code i outcome =
     ''Unit Code: '' @ unit_code @ [CHR 0x0A] @ ''Learning Outcome '' @ digits (i + 1) @ '': '' @ outcome"

definition lo_metadata :: "string \<Rightarrow> nat \<Rightarrow> metadata" where
  "lo_metadata unit_code i =
     [''source'' \<mapsto> PStr ''unit_guide'', ''type'' \<mapsto> PStr ''learning_outcome'',
      ''unit_code'' \<mapsto> PStr unit_code, ''outcome_index'' \<mapsto> PInt (int i)]"

text \<open>The inner loop, \<^verbatim>\<open>for i, outcome in enumerate(...)\<close>, from index \<open>i\<close> on.\<close>

fun outcomes_loop :: "string \<Rightarrow> nat \<Rightarrow> string list \<Rightarrow> pending \<Rightarrow> pending" where
  "outcomes_loop unit_code i [] p = p"
| "outcomes_loop unit_code i (outcome # rest) p =
     outcomes_loop unit_code (i + 1) rest
       (stage (lo_text unit_code i outcome) (lo_metadata unit_code i) p)"

fun units_loop :: "(string \<times> source_record) list \<Rightarrow> pending \<Rightarrow> py_error option \<times> pending" where
  "units_loop [] p = (None, p)"
| "units_loop ((unit_code, unit) # rest) p =
     (case unit_desc_text unit_code unit of
        Inl e \<Rightarrow> (Some e, p)
      | Inr desc_text \<Rightarrow>
          units_loop rest
            (outcomes_loop unit_code 0 (list_get unit ''learning_outcomes'')
               (stage desc_text (unit_metadata unit_code) p)))"

text \<open>\<open>units\<close> is what \<^verbatim>\<open>get_all_units()\<close> returns, in the order of the dict.\<close>

definition ingest_units :: "rag_state \<Rightarrow> (string \<times> source_record) list \<Rightarrow> py_error option \<times> rag_state" where
  "ingest_units s units = finish s (units_loop units (indexed_ids s, []))"

subsection \<open>Skills\<close>

text \<open>The text and the metadata of a skill record, or the first \<^verbatim>\<open>KeyError\<close>.\<close>

definition skill_document :: "source_record \<Rightarrow> py_error + string \<times> metadata" where
  "skill_document item =
     (case scalar_item item ''skill'' of Inl e \<Rightarrow> Inl e | Inr skill \<Rightarrow>
      (case list_item item ''roles'' of Inl e \<Rightarrow> Inl e | Inr roles \<Rightarrow>
       (case scalar_item item ''description'' of Inl e \<Rightarrow> Inl e | Inr description \<Rightarrow>
          Inr (''Skill: '' @ py_str skill @ [CHR 0x0A] @ ''Roles: '' @ join '', '' roles @ [CHR 0x0A]
               @ ''Description: '' @ py_str description @ [CHR 0x0A]
               @ ''Certifications: '' @ join '', '' (list_get item ''certifications''),
               [''source'' \<mapsto> PStr ''skills_mapping'', ''type'' \<mapsto> PStr ''skill'',
                ''skill_name'' \<mapsto> skill]))))"

fun skills_loop :: "source_record list \<Rightarrow> pending \<Rightarrow> py_error option \<times> pending" where
  "skills_loop [] p = (None, p)"
| "skills_loop (item # rest) p =
     (case skill_document item of
        Inl e \<Rightarrow> (Some e, p)
      | Inr (text, md) \<Rightarrow> skills_loop rest (stage text md p))"

text \<open>\<open>skills_data\<close> is the content of the skills file, \<open>None\<close> when the file does not exist.\<close>

definition ingest_skills :: "rag_state \<Rightarrow> source_record list option \<Rightarrow> py_error option \<times> rag_state" where
  "ingest_skills s skills_file =
     (case skills_file of
        None \<Rightarrow> (None, s)
      | Some skills_data \<Rightarrow> finish s (skills_loop skills_data (indexed_ids s, [])))"

subsection \<open>Learning materials\<close>

definition material_document :: "source_record \<Rightarrow> py_error + string \<times> metadata" where
  "material_document item =
     (case scalar_item item ''title'' of Inl e \<Rightarrow> Inl e | Inr title \<Rightarrow>
      (case scalar_item item ''type'' of Inl e \<Rightarrow> Inl e | Inr type \<Rightarrow>
       (case scalar_item item ''description'' of Inl e \<Rightarrow> Inl e | Inr description \<Rightarrow>
        (case scalar_item item ''url'' of Inl e \<Rightarrow> Inl e | Inr url \<Rightarrow>
           Inr (''Title: '' @ py_str title @ [CHR 0x0A] @ ''Type: '' @ py_str type @ [CHR 0x0A]
                @ ''Description: '' @ py_str description @ [CHR 0x0A]
                @ ''URL: '' @ py_str url @ [CHR 0x0A]
                @ ''Tags: '' @ join '', '' (list_get item ''tags''),
                [''source'' \<mapsto> PStr ''public_resource'', ''type'' \<mapsto> PStr ''material'',
                 ''title'' \<mapsto> title])))))"

fun materials_loop :: "source_record list \<Rightarrow> pending \<Rightarrow> py_error option \<times> pending" where
  "materials_loop [] p = (None, p)"
| "materials_loop (item # rest) p =
     (case material_document item of
        Inl e \<Rightarrow> (Some e, p)
      | Inr (text, md) \<Rightarrow> materials_loop rest (stage text md p))"

definition ingest_materials :: "rag_state \<Rightarrow> source_record list option \<Rightarrow> py_error option \<times> rag_state" where
  "ingest_materials s materials_file =
     (case materials_file of
        None \<Rightarrow> (None, s)
      | Some materials_data \<Rightarrow> finish s (materials_loop materials_data (indexed_ids s, [])))"

section \<open>Query\<close>

record query_result =
  content :: string
  result_metadata :: metadata
  distance :: real
  similarity_percent :: real

text \<open>
  One \<^verbatim>\<open>if filter_x: where_filter[key] = filter_x\<close>: the test is the truth value
  of an \<^verbatim>\<open>Optional[str]\<close>, false for \<^verbatim>\<open>None\<close> and for the empty string.
\<close>

definition filter_entry :: "string \<Rightarrow> string option \<Rightarrow> (string \<times> string) list" where
  "filter_entry key v = (case v of None \<Rightarrow> [] | Some x \<Rightarrow> if x \<noteq> [] then [(key, x)] else [])"

text \<open>The dict \<^verbatim>\<open>where_filter\<close>, in the order its keys are inserted.\<close>

definition where_filter :: "string option \<Rightarrow> string option \<Rightarrow> string option \<Rightarrow> (string \<times> string) list" where
  "where_filter filter_source filter_type filter_unit_code =
     filter_entry ''source'' filter_source
     @ filter_entry ''type'' filter_type
     @ filter_entry ''unit_code'' filter_unit_code"

text \<open>
  The search of the index, \<^verbatim>\<open>similarity_search_with_score(query, k, filter)\<close>, is
  a library call: the functions below take it as the parameter \<open>search\<close>, applied to
  the collection, the text, the number of candidates and the filter (\<open>None\<close> for the
  call without one).
\<close>

type_synonym search = "(string \<rightharpoonup> document) \<Rightarrow> string \<Rightarrow> int \<Rightarrow> (string \<times> string) list option \<Rightarrow> (document \<times> real) list"

definition content_hash :: "document \<Rightarrow> string" where
  "content_hash doc = md5_hexdigest (encode (page_content doc))"

definition format_result :: "document \<times> real \<Rightarrow> query_result" where
  "format_result c =
     (case c of (doc, d) \<Rightarrow>
        \<lparr>content = page_content doc, result_metadata = metadata doc,
         distance = py_round d 4, similarity_percent = normalize_score d\<rparr>)"

text \<open>
  The loop over the candidates, with \<open>seen_content\<close> and \<open>formatted_results\<close> as
  they stand; the test after each candidate is the \<^verbatim>\<open>break\<close>.
\<close>

fun results_loop :: "int \<Rightarrow> (document \<times> real) list \<Rightarrow> string set \<Rightarrow> query_result list \<Rightarrow> query_result list" where
  "results_loop k [] seen_content formatted_results = formatted_results"
| "results_loop k (c # rest) seen_content formatted_results =
     (let h = content_hash (fst c);
          seen_content' = (if h \<notin> seen_content then insert h seen_content else seen_content);
          formatted_results' = (if h \<notin> seen_content then formatted_results @ [format_result c]
                                else formatted_results)
      in if k \<le> int (length formatted_results') then formatted_results'
         else results_loop k rest seen_content' formatted_results')"

text \<open>
  The candidates \<^verbatim>\<open>results\<close>: the call with the filter when \<^verbatim>\<open>where_filter\<close>
  is not empty, the call without one otherwise, for \<open>2k\<close> candidates.
\<close>

definition candidates :: "search \<Rightarrow> rag_state \<Rightarrow> string \<Rightarrow> int \<Rightarrow> string option \<Rightarrow> string option \<Rightarrow> string option \<Rightarrow> (document \<times> real) list" where
  "candidates search s query_text k filter_source filter_type filter_unit_code =
     (let expanded_query = expand_query query_text;
          flt = where_filter filter_source filter_type filter_unit_code
      in if flt \<noteq> [] then search (vector_store s) expanded_query (k * 2) (Some flt)
         else search (vector_store s) expanded_query (k * 2) None)"

text \<open>\<open>query\<close> returns its list and the state it leaves.\<close>

definition query :: "search \<Rightarrow> rag_state \<Rightarrow> string \<Rightarrow> int \<Rightarrow> string option \<Rightarrow> string option \<Rightarrow> string option \<Rightarrow> query_result list \<times> rag_state" where
  "query search s query_text k filter_source filter_type filter_unit_code =
     (let results = candidates search s query_text k filter_source filter_type filter_unit_code
      in (results_loop k results {} [], s))"

text \<open>A document passes a filter when its metadata has every pair of the filter.\<close>

definition matches :: "(string \<times> string) list \<Rightarrow> metadata \<Rightarrow> bool" where
  "matches flt md = (\<forall>(key, v) \<in> set flt. md key = Some (PStr v))"

section \<open>Auxiliary definitions\<close>

text \<open>
  Each of the three ingest functions stages a list of candidates, the texts with
  their metadata, one after the other; the definitions below name that list, so that
  the three functions are instances of one.
\<close>

definition stage_all :: "(string \<times> metadata) list \<Rightarrow> pending \<Rightarrow> pending" where
  "stage_all cs p = fold (\<lambda>(text, md). stage text md) cs p"

definition candidate_ids :: "(string \<times> metadata) list \<Rightarrow> string set" where
  "candidate_ids cs = (\<lambda>(text, md). generate_doc_id text md) ` set cs"

fun outcome_candidates :: "string \<Rightarrow> nat \<Rightarrow> string list \<Rightarrow> (string \<times> metadata) list" where
  "outcome_candidates unit_code i [] = []"
| "outcome_candidates unit_code i (outcome # rest) =
     (lo_text unit_code i outcome, lo_metadata unit_code i) # outcome_candidates unit_code (i + 1) rest"

fun unit_candidates :: "(string \<times> source_record) list \<Rightarrow> py_error option \<times> (string \<times> metadata) list" where
  "unit_candidates [] = (None, [])"
| "unit_candidates ((unit_code, unit) # rest) =
     (case unit_desc_text unit_code unit of
        Inl e \<Rightarrow> (Some e, [])
      | Inr desc_text \<Rightarrow>
          (fst (unit_candidates rest),
           (desc_text, unit_metadata unit_code)
           # outcome_candidates unit_code 0 (list_get unit ''learning_outcomes'')
           @ snd (unit_candidates rest)))"

fun record_candidates :: "(source_record \<Rightarrow> py_error + string \<times> metadata) \<Rightarrow> source_record list \<Rightarrow> py_error option \<times> (string \<times> metadata) list" where
  "record_candidates mk [] = (None, [])"
| "record_candidates mk (item # rest) =
     (case mk item of
        Inl e \<Rightarrow> (Some e, [])
      | Inr c \<Rightarrow> (fst (record_candidates mk rest), c # snd (record_candidates mk rest)))"

text \<open>One run of an ingest function over the candidates \<open>cs\<close>, ending with \<open>e\<close>.\<close>

definition run :: "rag_state \<Rightarrow> py_error option \<Rightarrow> (string \<times> metadata) list \<Rightarrow> py_error option \<times> rag_state" where
  "run s e cs = finish s (e, stage_all cs (indexed_ids s, []))"

text \<open>The state of the first process on an empty collection, and the unit record of the scenario.\<close>

definition empty_state :: rag_state where
  "empty_state = \<lparr>indexed_ids = {}, vector_store = Map.empty\<rparr>"

definition comp1000 :: source_record where
  "comp1000 = \<lparr>scalar_fields = [''unit_code'' \<mapsto> PStr ''COMP1000'', ''title'' \<mapsto> PStr ''Intro'',
                            ''description'' \<mapsto> PStr ''...''],
               list_fields = [''prerequisites'' \<mapsto> [], ''learning_outcomes'' \<mapsto> [''Write basic programs'']]\<rparr>"

definition comp1000_desc :: string where
  "comp1000_desc = ''Unit Code: COMP1000'' @ [CHR 0x0A] @ ''Title: Intro'' @ [CHR 0x0A]
     @ ''Description: ...'' @ [CHR 0x0A] @ ''Prerequisites: None'' @ [CHR 0x0A] @ ''Credit Points: N/A''"

definition comp1000_lo :: string where
  "comp1000_lo = ''Unit Code: COMP1000'' @ [CHR 0x0A] @ ''Learning Outcome 1: Write basic programs''"

text \<open>Two skill records, the second without its description, and the metadata of a skill.\<close>

definition python_skill :: source_record where
  "python_skill = \<lparr>scalar_fields = [''skill'' \<mapsto> PStr ''Python'', ''description'' \<mapsto> PStr ''Programming''],
                   list_fields = [''roles'' \<mapsto> [''Developer'']]\<rparr>"

definition sql_skill_no_description :: source_record where
  "sql_skill_no_description = \<lparr>scalar_fields = [''skill'' \<mapsto> PStr ''SQL''],
                                list_fields = [''roles'' \<mapsto> [''Analyst'']]\<rparr>"

definition skill_md :: metadata where
  "skill_md = [''source'' \<mapsto> PStr ''skills_mapping'', ''type'' \<mapsto> PStr ''skill'',
               ''skill_name'' \<mapsto> PStr ''Python'']"

text \<open>
  The state in which an ingest of the skills file that raised leaves a process that
  started on an empty collection, and the text of the well-formed skill record.
\<close>

definition failed_state :: rag_state where
  "failed_state = snd (ingest_skills empty_state (Some [python_skill, sql_skill_no_description]))"

definition python_skill_text :: string where
  "python_skill_text = ''Skill: Python'' @ [CHR 0x0A] @ ''Roles: Developer'' @ [CHR 0x0A]
     @ ''Description: Programming'' @ [CHR 0x0A] @ ''Certifications: ''"

section \<open>Cutting a text at the occurrences of a word\<close>

text \<open>
  \<^verbatim>\<open>s.split(sep)\<close> for a separator that is not empty: the pieces of \<open>s\<close> between
  the occurrences of \<open>sep\<close>, found from the left and not overlapping.
\<close>

function split :: "string \<Rightarrow> string \<Rightarrow> string list" where
  "split s sep =
     (if s = [] then [[]]
      else if sep \<noteq> [] \<and> prefix sep s then [] # split (drop (length sep) s) sep
      else (case split (tl s) sep of [] \<Rightarrow> [[hd s]] | u # us \<Rightarrow> (hd s # u) # us))"
  by pat_completeness auto
termination
  by (relation "measure (\<lambda>(s, sep). length s)") auto

declare split.simps [simp del]


section \<open>The query pipeline of the spec, and an index to run it on\<close>

text \<open>
  Step 4 of the query pipeline in the spec's words: walk the candidates in the order
  returned and skip a candidate whose content hash was accepted already; \<open>seen\<close> holds
  the hashes accepted so far.
\<close>

fun dedup_candidates :: "(document \<times> real) list \<Rightarrow> string set \<Rightarrow> (document \<times> real) list" where
  "dedup_candidates [] seen = []"
| "dedup_candidates (c # cs) seen =
     (if content_hash (fst c) \<in> seen then dedup_candidates cs seen
      else c # dedup_candidates cs (insert (content_hash (fst c)) seen))"

text \<open>
  Modelled from the spec: an index over a corpus listed with its distances to the query,
  closest first.  Its search returns at most the number of entries asked for, in that
  order, and with a filter only the documents whose metadata has every pair of it.
\<close>

definition listed_index :: "(document \<times> real) list \<Rightarrow> search" where
  "listed_index corpus store query_text n flt =
     take (nat n) (filter (\<lambda>c. case flt of None \<Rightarrow> True | Some f \<Rightarrow> matches f (metadata (fst c))) corpus)"

definition python_doc :: document where
  "python_doc = \<lparr>page_content = ''Skill: Python'', metadata = skill_md,
                 doc_id = generate_doc_id ''Skill: Python'' skill_md\<rparr>"

definition intro_doc :: document where
  "intro_doc = \<lparr>page_content = ''Title: Intro'',
                 metadata = [''source'' \<mapsto> PStr ''public_resource'', ''type'' \<mapsto> PStr ''material'',
                             ''title'' \<mapsto> PStr ''Intro''],
                 doc_id = ''0''\<rparr>"

text \<open>A corpus of three entries; the first two have one content.\<close>

definition sample_corpus :: "(document \<times> real) list" where
  "sample_corpus = [(python_doc, 1 / 4), (python_doc\<lparr>doc_id := ''1''\<rparr>, 1 / 2), (intro_doc, 3 / 4)]"

section \<open>Properties of the scores\<close>

lemma expo_bounds: "0 < x \<Longrightarrow> 2 powi expo x \<le> x \<and> x < 2 powi (expo x + 1)"
proof (induction x rule: expo.induct)
  case (1 x)
  show ?case
  proof (cases "2 \<le> x")
    case True
    then have e: "expo x = expo (x / 2) + 1" by (subst expo.simps) simp
    from True 1 have "2 powi expo (x / 2) \<le> x / 2 \<and> x / 2 < 2 powi (expo (x / 2) + 1)" by simp
    then show ?thesis
      unfolding e by (simp add: power_int_add)
  next
    case False
    show ?thesis
    proof (cases "x < 1")
      case True
      with False 1 have e: "expo x = expo (2 * x) - 1" by (subst expo.simps) simp
      from True False 1 have "2 powi expo (2 * x) \<le> 2 * x \<and> 2 * x < 2 powi (expo (2 * x) + 1)" by simp
      then show ?thesis
        unfolding e by (simp add: power_int_add power_int_diff)
    next
      case ge: False
      with False have "expo x = 0" by (subst expo.simps) simp
      with False ge show ?thesis by simp
    qed
  qed
qed

lemma expo_mono:
  assumes "0 < x" "x \<le> y"
  shows "expo x \<le> expo y"
proof (rule ccontr)
  assume "\<not> expo x \<le> expo y"
  then have "expo y + 1 \<le> expo x" by simp
  then have "(2::real) powi (expo y + 1) \<le> 2 powi expo x"
    by (intro power_int_increasing) simp_all
  with expo_bounds [of x] expo_bounds [of y] assms show False by linarith
qed

lemma ulp_pos: "0 < ulp x"
  by (simp add: ulp_def)

lemma round_half_even_bounds: "\<lfloor>x\<rfloor> \<le> round_half_even x \<and> round_half_even x \<le> \<lfloor>x\<rfloor> + 1"
  by (simp add: round_half_even_def Let_def)

lemma round_half_even_mono:
  assumes "x \<le> y"
  shows "round_half_even x \<le> round_half_even y"
proof (cases "\<lfloor>x\<rfloor> = \<lfloor>y\<rfloor>")
  case True
  with assms show ?thesis
    by (auto simp: round_half_even_def Let_def)
next
  case False
  with assms have "\<lfloor>x\<rfloor> < \<lfloor>y\<rfloor>"
    using floor_mono [of x y] by linarith
  then have "round_half_even x \<le> \<lfloor>y\<rfloor>"
    using round_half_even_bounds [of x] by linarith
  then show ?thesis
    using round_half_even_bounds [of y] by linarith
qed

lemma round_half_even_of_int: "round_half_even (of_int n) = n"
  by (simp add: round_half_even_def)

text \<open>A positive number rounds into its own binade, ends included.\<close>

lemma fl_binade:
  assumes "0 < x"
  shows "2 powi (max (- 1022) (expo x)) \<le> x \<longrightarrow> 2 powi (max (- 1022) (expo x)) \<le> fl x"
    and "fl x \<le> 2 powi (max (- 1022) (expo x) + 1)"
proof -
  let ?e = "max (- 1022) (expo x)"
  have u: "ulp x = 2 powi (?e - 52)" using assms by (simp add: ulp_def)
  have p52: "(2::real) powi ?e = 2 ^ 52 * 2 powi (?e - 52)"
    by (simp add: power_int_diff)
  have p53: "(2::real) powi (?e + 1) = 2 ^ 53 * 2 powi (?e - 52)"
    by (simp add: power_int_diff power_int_add)
  show "2 powi ?e \<le> x \<longrightarrow> 2 powi ?e \<le> fl x"
  proof
    assume "2 powi ?e \<le> x"
    then have "2 ^ 52 \<le> x / ulp x"
      unfolding u p52 by (simp add: pos_le_divide_eq)
    then have "round_half_even (of_int (2 ^ 52)) \<le> round_half_even (x / ulp x)"
      by (intro round_half_even_mono) simp
    then have "2 ^ 52 \<le> round_half_even (x / ulp x)"
      by (simp only: round_half_even_of_int)
    then have "(2::real) ^ 52 \<le> of_int (round_half_even (x / ulp x))"
      by (metis of_int_le_iff of_int_numeral of_int_power)
    then show "2 powi ?e \<le> fl x"
      unfolding fl_def p52 u by (intro mult_right_mono) simp_all
  qed
  have "x < 2 powi (expo x + 1)" using expo_bounds [OF assms] by simp
  also have "\<dots> \<le> 2 powi (?e + 1)"
    by (intro power_int_increasing) simp_all
  finally have "x / ulp x \<le> 2 ^ 53"
    unfolding u p53 by (simp add: pos_divide_le_eq)
  then have "round_half_even (x / ulp x) \<le> round_half_even (of_int (2 ^ 53))"
    by (intro round_half_even_mono) simp
  then have "round_half_even (x / ulp x) \<le> 2 ^ 53"
    by (simp only: round_half_even_of_int)
  then have "of_int (round_half_even (x / ulp x)) \<le> (2::real) ^ 53"
    by (metis of_int_le_iff of_int_numeral of_int_power)
  then show "fl x \<le> 2 powi (?e + 1)"
    unfolding fl_def p53 u by (intro mult_right_mono) simp_all
qed

lemma fl_zero: "fl 0 = 0"
  by (simp add: fl_def round_half_even_def)

lemma fl_nonneg: "0 \<le> x \<Longrightarrow> 0 \<le> fl x"
proof -
  assume "0 \<le> x"
  then have "0 \<le> x / ulp x" using ulp_pos [of x] by simp
  then have "round_half_even (of_int 0) \<le> round_half_even (x / ulp x)"
    by (intro round_half_even_mono) simp
  then have "0 \<le> round_half_even (x / ulp x)"
    by (simp only: round_half_even_of_int)
  then show ?thesis
    using ulp_pos [of x] by (simp add: fl_def)
qed

lemma fl_mono:
  assumes "0 \<le> x" "x \<le> y"
  shows "fl x \<le> fl y"
proof (cases "x = 0")
  case True
  with assms show ?thesis by (simp add: fl_zero fl_nonneg)
next
  case False
  with assms have x: "0 < x" and y: "0 < y" by simp_all
  let ?ex = "max (- 1022) (expo x)" and ?ey = "max (- 1022) (expo y)"
  have le: "?ex \<le> ?ey" using expo_mono [OF x assms(2)] by simp
  show ?thesis
  proof (cases "?ex = ?ey")
    case True
    with x y have u: "ulp y = ulp x" by (simp add: ulp_def)
    from assms(2) have "x / ulp x \<le> y / ulp x"
      using ulp_pos [of x] by (simp add: divide_right_mono)
    then have "round_half_even (x / ulp x) \<le> round_half_even (y / ulp x)"
      by (rule round_half_even_mono)
    then show ?thesis
      unfolding fl_def u using ulp_pos [of x] by (simp add: mult_right_mono)
  next
    case ne: False
    with le have lt: "?ex + 1 \<le> ?ey" and ey: "?ey = expo y" by simp_all
    have "fl x \<le> 2 powi (?ex + 1)" using fl_binade(2) [OF x] .
    also have "\<dots> \<le> 2 powi ?ey"
      using lt by (intro power_int_increasing) simp_all
    also have "\<dots> \<le> fl y"
      using fl_binade(1) [OF y] expo_bounds [OF y] ey by simp
    finally show ?thesis .
  qed
qed

lemma expo_one: "expo 1 = 0"
  by (subst expo.simps) simp

lemma fl_one: "fl 1 = 1"
proof -
  have "ulp 1 = 2 powi (- 52)" by (simp add: ulp_def expo_one)
  moreover have "(1::real) / 2 powi (- 52) = of_int (2 ^ 52)"
    by (simp add: power_int_minus)
  ultimately have "round_half_even (1 / ulp 1) = 2 ^ 52"
    by (simp only: round_half_even_of_int)
  then show ?thesis
    by (simp add: fl_def \<open>ulp 1 = 2 powi (- 52)\<close> power_int_minus)
qed

lemma fl_hundred: "fl 100 = 100"
  by code_simp

lemma py_round_mono: "x \<le> y \<Longrightarrow> py_round x n \<le> py_round y n"
  unfolding py_round_def
  by (intro divide_right_mono of_int_le_iff [THEN iffD2] round_half_even_mono mult_right_mono) simp_all

lemma py_round_of_int: "py_round (of_int n) d = of_int n"
proof -
  have "of_int n * (10::real) ^ d = of_int (n * 10 ^ d)" by simp
  then have "round_half_even (of_int n * 10 ^ d) = n * 10 ^ d"
    using round_half_even_of_int by metis
  then show ?thesis by (simp add: py_round_def)
qed

lemma normalize_zero: "normalize_score 0 = 100"
  using py_round_of_int [of 100 2] by (simp add: normalize_score_def fl_zero fl_one fl_hundred)

lemma normalize_far: "2 \<le> d \<Longrightarrow> normalize_score d = 0"
  using py_round_of_int [of 0 2] by (simp add: normalize_score_def min_def fl_zero fl_one)

lemma normalize_antimono:
  assumes "0 \<le> d1" "d1 \<le> d2"
  shows "normalize_score d2 \<le> normalize_score d1"
proof -
  let ?c1 = "min d1 2 / 2" and ?c2 = "min d2 2 / 2"
  from assms have c: "0 \<le> ?c1" "?c1 \<le> ?c2" "0 \<le> ?c2" "?c2 \<le> 1" by auto
  have a: "fl ?c1 \<le> fl ?c2" using c(1,2) by (rule fl_mono)
  have "fl ?c2 \<le> fl 1" using c(3,4) by (rule fl_mono)
  then have b: "0 \<le> 1 - fl ?c2" by (simp add: fl_one)
  from a have "1 - fl ?c2 \<le> 1 - fl ?c1" by simp
  with b have s: "fl (1 - fl ?c2) \<le> fl (1 - fl ?c1)" by (rule fl_mono)
  have "0 \<le> fl (1 - fl ?c2)" using b by (rule fl_nonneg)
  then have "0 \<le> 100 * fl (1 - fl ?c2)" by simp
  moreover from s have "100 * fl (1 - fl ?c2) \<le> 100 * fl (1 - fl ?c1)" by simp
  ultimately have "fl (100 * fl (1 - fl ?c2)) \<le> fl (100 * fl (1 - fl ?c1))" by (rule fl_mono)
  then have "max 0 (fl (100 * fl (1 - fl ?c2))) \<le> max 0 (fl (100 * fl (1 - fl ?c1)))" by auto
  then show ?thesis
    unfolding normalize_score_def Let_def by (rule py_round_mono)
qed

text \<open>
  Claim C2.  The relevance score of a distance \<open>d\<close> is
  \<open>round(max(0, 100 * (1 - min(d, 2.0) / 2.0)), 2)\<close>, the operations being those of
  doubles; it is 100 at distance 0, it is 0 at every distance from 2.0 on, and between 0
  and 2.0 a larger distance never has a larger score.
\<close>

theorem normalize_score_spec:
  "normalize_score d = py_round (max 0 (fl (100 * fl (1 - fl (min d 2 / 2))))) 2
   \<and> normalize_score 0 = 100
   \<and> (2 \<le> d \<longrightarrow> normalize_score d = 0)
   \<and> (0 \<le> d1 \<and> d1 < d2 \<and> d2 \<le> 2 \<longrightarrow> normalize_score d2 \<le> normalize_score d1)"
proof (intro conjI impI)
  show "normalize_score d = py_round (max 0 (fl (100 * fl (1 - fl (min d 2 / 2))))) 2"
    by (simp add: normalize_score_def)
  show "normalize_score 0 = 100"
    by (rule normalize_zero)
  show "normalize_score d = 0" if "2 \<le> d"
    using that by (rule normalize_far)
  show "normalize_score d2 \<le> normalize_score d1" if "0 \<le> d1 \<and> d1 < d2 \<and> d2 \<le> 2"
    using that by (intro normalize_antimono) simp_all
qed

lemma normalize_score_values:
  "normalize_score (9 / 10000) = 9995 / 100"
  "normalize_score (1 / 3) = 8333 / 100"
  "normalize_score (3 / 2) = 25"
  by code_simp+

theorem normalize_score_spec_witness:
  "(2::real) \<le> 3 \<and> normalize_score 3 = 0
   \<and> (0::real) \<le> 9 / 10000 \<and> (9 / 10000 :: real) < 1 / 3 \<and> (1 / 3 :: real) \<le> 2
   \<and> normalize_score (1 / 3) \<le> normalize_score (9 / 10000)
   \<and> normalize_score (9 / 10000) = 9995 / 100 \<and> normalize_score (1 / 3) = 8333 / 100"
  using normalize_score_spec [of 3 "9 / 10000" "1 / 3"] normalize_score_values by simp

section \<open>Properties of ingestion\<close>

lemma stage_all_simps [simp]:
  "stage_all [] p = p"
  "stage_all ((text, md) # cs) p = stage_all cs (stage text md p)"
  "stage_all (cs @ ds) p = stage_all ds (stage_all cs p)"
  by (simp_all add: stage_all_def)

lemma fst_stage: "fst (stage text md p) = insert (generate_doc_id text md) (fst p)"
  by (cases p) (auto simp: stage_def Let_def)

lemma stage_seen: "generate_doc_id text md \<in> fst p \<Longrightarrow> stage text md p = p"
  by (cases p) (simp add: stage_def)

lemma ids_stage:
  "doc_id ` set (snd (stage text md (I, D))) = doc_id ` set D \<union> ({generate_doc_id text md} - I)"
  by (auto simp: stage_def Let_def)

lemma candidate_ids_simps [simp]:
  "candidate_ids [] = {}"
  "candidate_ids ((t, md) # cs) = insert (generate_doc_id t md) (candidate_ids cs)"
  by (simp_all add: candidate_ids_def)

lemma fst_stage_all: "fst (stage_all cs p) = fst p \<union> candidate_ids cs"
proof (induction cs arbitrary: p)
  case Nil
  then show ?case by simp
next
  case (Cons c cs)
  obtain t md where c: "c = (t, md)" by (cases c)
  show ?case
    using Cons.IH [of "stage t md p"] by (simp add: c fst_stage)
qed

lemma stage_all_seen: "candidate_ids cs \<subseteq> fst p \<Longrightarrow> stage_all cs p = p"
proof (induction cs arbitrary: p)
  case Nil
  then show ?case by simp
next
  case (Cons c cs)
  obtain t md where c: "c = (t, md)" by (cases c)
  from Cons.prems have "stage t md p = p"
    by (simp add: c stage_seen)
  with Cons show ?case by (simp add: c)
qed

lemma ids_stage_all:
  "doc_id ` set (snd (stage_all cs (I, D))) = doc_id ` set D \<union> (candidate_ids cs - I)"
proof (induction cs arbitrary: I D)
  case Nil
  then show ?case by simp
next
  case (Cons c cs)
  obtain t md where c: "c = (t, md)" by (cases c)
  obtain I' D' where st: "stage t md (I, D) = (I', D')" by (cases "stage t md (I, D)")
  have I': "I' = insert (generate_doc_id t md) I"
    using fst_stage [of t md "(I, D)"] st by simp
  have D': "doc_id ` set D' = doc_id ` set D \<union> ({generate_doc_id t md} - I)"
    using ids_stage [of t md I D] st by simp
  show ?case
    using Cons.IH [of I' D'] by (auto simp: c st I' D')
qed

lemma dom_add_documents: "dom (add_documents store documents) = dom store \<union> doc_id ` set documents"
  unfolding add_documents_def
  by (induction documents arbitrary: store) auto

lemma outcomes_loop_eq:
  "outcomes_loop unit_code i outcomes p = stage_all (outcome_candidates unit_code i outcomes) p"
  by (induction outcomes arbitrary: i p) simp_all

lemma units_loop_eq:
  "units_loop units p = (fst (unit_candidates units), stage_all (snd (unit_candidates units)) p)"
  by (induction units arbitrary: p rule: unit_candidates.induct)
     (simp_all add: outcomes_loop_eq split: sum.splits)

lemma skills_loop_eq:
  "skills_loop items p =
     (fst (record_candidates skill_document items), stage_all (snd (record_candidates skill_document items)) p)"
  by (induction items arbitrary: p) (simp_all split: sum.splits prod.splits)

lemma materials_loop_eq:
  "materials_loop items p =
     (fst (record_candidates material_document items), stage_all (snd (record_candidates material_document items)) p)"
  by (induction items arbitrary: p) (simp_all split: sum.splits prod.splits)

lemma indexed_ids_run: "indexed_ids (snd (run s e cs)) = indexed_ids s \<union> candidate_ids cs"
  using fst_stage_all [of cs "(indexed_ids s, [])"]
  by (cases "stage_all cs (indexed_ids s, [])"; cases e) (auto simp: run_def finish_def)

lemma run_seen: "candidate_ids cs \<subseteq> indexed_ids s \<Longrightarrow> run s e cs = (e, s)"
  by (cases e) (simp_all add: run_def finish_def stage_all_seen)

lemma run_twice: "run (snd (run s e cs)) e cs = run s e cs"
proof -
  have "candidate_ids cs \<subseteq> indexed_ids (snd (run s e cs))"
    by (simp add: indexed_ids_run)
  then have "run (snd (run s e cs)) e cs = (e, snd (run s e cs))"
    by (rule run_seen)
  moreover have "fst (run s e cs) = e"
    by (cases "stage_all cs (indexed_ids s, [])"; cases e) (auto simp: run_def finish_def)
  ultimately show ?thesis by (simp add: prod_eq_iff)
qed

lemma dom_run:
  "dom (vector_store (snd (run s e cs))) =
     (if e = None then dom (vector_store s) \<union> (candidate_ids cs - indexed_ids s) else dom (vector_store s))"
proof -
  obtain I D where st: "stage_all cs (indexed_ids s, []) = (I, D)"
    by (cases "stage_all cs (indexed_ids s, [])")
  have D: "doc_id ` set D = candidate_ids cs - indexed_ids s"
    using ids_stage_all [of cs "indexed_ids s" "[]"] st by simp
  show ?thesis
  proof (cases e)
    case None
    show ?thesis
    proof (cases "D = []")
      case True
      with D have "candidate_ids cs - indexed_ids s = {}" by simp
      with True None st show ?thesis by (auto simp: run_def finish_def)
    next
      case False
      with None st D show ?thesis by (simp add: run_def finish_def dom_add_documents)
    qed
  next
    case (Some a)
    with st show ?thesis by (simp add: run_def finish_def)
  qed
qed

lemma run_restart:
  assumes "indexed_ids s \<subseteq> dom (vector_store s)"
  shows "dom (vector_store (snd (run (restart (snd (run s e cs))) e cs))) = dom (vector_store (snd (run s e cs)))"
proof -
  let ?s1 = "snd (run s e cs)"
  have r: "indexed_ids (restart ?s1) = {}" "vector_store (restart ?s1) = vector_store ?s1"
    by (simp_all add: restart_def)
  have "dom (vector_store (snd (run (restart ?s1) e cs))) =
        (if e = None then dom (vector_store ?s1) \<union> candidate_ids cs
         else dom (vector_store ?s1))"
    unfolding dom_run [of "restart ?s1"] r by simp
  also have "\<dots> = dom (vector_store ?s1)"
    using assms unfolding dom_run [of s] by auto
  finally show ?thesis .
qed

lemma ingest_units_run:
  "ingest_units s units = run s (fst (unit_candidates units)) (snd (unit_candidates units))"
  by (simp add: ingest_units_def run_def units_loop_eq)

lemma ingest_skills_run:
  "ingest_skills s (Some items) =
     run s (fst (record_candidates skill_document items)) (snd (record_candidates skill_document items))"
  by (simp add: ingest_skills_def run_def skills_loop_eq)

lemma ingest_materials_run:
  "ingest_materials s (Some items) =
     run s (fst (record_candidates material_document items)) (snd (record_candidates material_document items))"
  by (simp add: ingest_materials_def run_def materials_loop_eq)

lemma comp1000_desc_text: "unit_desc_text ''COMP1000'' comp1000 = Inr comp1000_desc"
  by (simp add: unit_desc_text_def comp1000_def comp1000_desc_def list_get_def scalar_get_def scalar_item_def)

lemma comp1000_lo_text: "lo_text ''COMP1000'' 0 ''Write basic programs'' = comp1000_lo"
  by code_simp

lemma comp1000_desc_id:
  "generate_doc_id comp1000_desc (unit_metadata ''COMP1000'') = ''ad94d5be272840eb6a72cfffddad284f''"
  by code_simp

lemma comp1000_lo_id:
  "generate_doc_id comp1000_lo (lo_metadata ''COMP1000'' 0) = ''614c4a12cc8184b0fd738d910ff7f346''"
  by code_simp

lemma comp1000_loop:
  "units_loop [(''COMP1000'', comp1000)] ({}, []) =
     (None, ({''ad94d5be272840eb6a72cfffddad284f'', ''614c4a12cc8184b0fd738d910ff7f346''},
             [\<lparr>page_content = comp1000_desc, metadata = unit_metadata ''COMP1000'',
               doc_id = ''ad94d5be272840eb6a72cfffddad284f''\<rparr>,
              \<lparr>page_content = comp1000_lo, metadata = lo_metadata ''COMP1000'' 0,
               doc_id = ''614c4a12cc8184b0fd738d910ff7f346''\<rparr>]))"
proof -
  have l: "list_get comp1000 ''learning_outcomes'' = [''Write basic programs'']"
    by (simp add: list_get_def comp1000_def)
  show ?thesis
    by (simp add: comp1000_desc_text l comp1000_lo_text stage_def Let_def comp1000_desc_id comp1000_lo_id insert_commute)
qed

lemma comp1000_ingest:
  "ingest_units empty_state [(''COMP1000'', comp1000)] =
     (None, \<lparr>indexed_ids = {''ad94d5be272840eb6a72cfffddad284f'', ''614c4a12cc8184b0fd738d910ff7f346''},
             vector_store =
               [''ad94d5be272840eb6a72cfffddad284f'' \<mapsto>
                  \<lparr>page_content = comp1000_desc, metadata = unit_metadata ''COMP1000'',
                   doc_id = ''ad94d5be272840eb6a72cfffddad284f''\<rparr>,
                ''614c4a12cc8184b0fd738d910ff7f346'' \<mapsto>
                  \<lparr>page_content = comp1000_lo, metadata = lo_metadata ''COMP1000'' 0,
                   doc_id = ''614c4a12cc8184b0fd738d910ff7f346''\<rparr>]\<rparr>)"
proof -
  have "ingest_units empty_state [(''COMP1000'', comp1000)] =
        finish empty_state (units_loop [(''COMP1000'', comp1000)] ({}, []))"
    by (simp add: ingest_units_def empty_state_def del: units_loop.simps)
  then show ?thesis
    unfolding comp1000_loop by (simp add: finish_def add_documents_def empty_state_def)
qed

lemma ingest_skills_twice:
  "ingest_skills (snd (ingest_skills s skills_file)) skills_file = ingest_skills s skills_file"
proof (cases skills_file)
  case None
  then show ?thesis by (simp add: ingest_skills_def)
next
  case (Some items)
  then show ?thesis unfolding Some ingest_skills_run by (simp add: run_twice)
qed

lemma ingest_materials_twice:
  "ingest_materials (snd (ingest_materials s materials_file)) materials_file = ingest_materials s materials_file"
proof (cases materials_file)
  case None
  then show ?thesis by (simp add: ingest_materials_def)
next
  case (Some items)
  then show ?thesis unfolding Some ingest_materials_run by (simp add: run_twice)
qed

lemma ingest_skills_restart:
  assumes "indexed_ids s \<subseteq> dom (vector_store s)"
  shows "dom (vector_store (snd (ingest_skills (restart (snd (ingest_skills s skills_file))) skills_file))) =
         dom (vector_store (snd (ingest_skills s skills_file)))"
proof (cases skills_file)
  case None
  then show ?thesis by (simp add: ingest_skills_def restart_def)
next
  case (Some items)
  show ?thesis unfolding Some ingest_skills_run using assms by (rule run_restart)
qed

lemma ingest_materials_restart:
  assumes "indexed_ids s \<subseteq> dom (vector_store s)"
  shows "dom (vector_store (snd (ingest_materials (restart (snd (ingest_materials s materials_file))) materials_file))) =
         dom (vector_store (snd (ingest_materials s materials_file)))"
proof (cases materials_file)
  case None
  then show ?thesis by (simp add: ingest_materials_def restart_def)
next
  case (Some items)
  show ?thesis unfolding Some ingest_materials_run using assms by (rule run_restart)
qed

lemma run_invariant:
  assumes "indexed_ids s \<subseteq> dom (vector_store s)" "fst (run s e cs) = None"
  shows "indexed_ids (snd (run s e cs)) \<subseteq> dom (vector_store (snd (run s e cs)))"
proof -
  have "fst (run s e cs) = e"
    by (cases "stage_all cs (indexed_ids s, [])"; cases e) (auto simp: run_def finish_def)
  with assms(2) have "e = None" by simp
  with assms(1) show ?thesis
    unfolding indexed_ids_run dom_run by auto
qed

lemma ingest_invariant:
  assumes "indexed_ids s \<subseteq> dom (vector_store s)"
  shows "fst (ingest_units s units) = None \<longrightarrow>
           indexed_ids (snd (ingest_units s units)) \<subseteq> dom (vector_store (snd (ingest_units s units)))"
    and "fst (ingest_skills s skills_file) = None \<longrightarrow>
           indexed_ids (snd (ingest_skills s skills_file)) \<subseteq> dom (vector_store (snd (ingest_skills s skills_file)))"
    and "fst (ingest_materials s materials_file) = None \<longrightarrow>
           indexed_ids (snd (ingest_materials s materials_file))
             \<subseteq> dom (vector_store (snd (ingest_materials s materials_file)))"
proof -
  show "fst (ingest_units s units) = None \<longrightarrow>
           indexed_ids (snd (ingest_units s units)) \<subseteq> dom (vector_store (snd (ingest_units s units)))"
    unfolding ingest_units_run using assms run_invariant by blast
  show "fst (ingest_skills s skills_file) = None \<longrightarrow>
           indexed_ids (snd (ingest_skills s skills_file)) \<subseteq> dom (vector_store (snd (ingest_skills s skills_file)))"
  proof (cases skills_file)
    case None
    with assms show ?thesis by (simp add: ingest_skills_def)
  next
    case (Some items)
    show ?thesis unfolding Some ingest_skills_run using assms run_invariant by blast
  qed
  show "fst (ingest_materials s materials_file) = None \<longrightarrow>
           indexed_ids (snd (ingest_materials s materials_file))
             \<subseteq> dom (vector_store (snd (ingest_materials s materials_file)))"
  proof (cases materials_file)
    case None
    with assms show ?thesis by (simp add: ingest_materials_def)
  next
    case (Some items)
    show ?thesis unfolding Some ingest_materials_run using assms run_invariant by blast
  qed
qed

text \<open>
  Claim C1, as amended.  Ingestion is idempotent.  In one process, a second ingest of the same
  records returns what the first returned and leaves the state of the first.  In a fresh
  process (the set of ids empty again, the collection kept), from a state whose ids are
  all in the collection, the second ingest leaves the collection with the ids of the
  first; a process starts in such a state and an ingest that ends without an error
  leaves one.  From an empty collection, the unit record COMP1000 with one learning outcome
  gives two documents, one of type description and one of type learning_outcome, and
  the second ingest of the record adds none.
\<close>

theorem ingestion_idempotent:
  "ingest_units (snd (ingest_units s units)) units = ingest_units s units
   \<and> ingest_skills (snd (ingest_skills s skills_file)) skills_file = ingest_skills s skills_file
   \<and> ingest_materials (snd (ingest_materials s materials_file)) materials_file
       = ingest_materials s materials_file
   \<and> (indexed_ids s \<subseteq> dom (vector_store s) \<longrightarrow>
        dom (vector_store (snd (ingest_units (restart (snd (ingest_units s units))) units)))
          = dom (vector_store (snd (ingest_units s units)))
        \<and> dom (vector_store (snd (ingest_skills (restart (snd (ingest_skills s skills_file))) skills_file)))
          = dom (vector_store (snd (ingest_skills s skills_file)))
        \<and> dom (vector_store (snd (ingest_materials (restart (snd (ingest_materials s materials_file))) materials_file)))
          = dom (vector_store (snd (ingest_materials s materials_file)))
        \<and> (fst (ingest_units s units) = None \<longrightarrow>
             indexed_ids (snd (ingest_units s units)) \<subseteq> dom (vector_store (snd (ingest_units s units))))
        \<and> (fst (ingest_skills s skills_file) = None \<longrightarrow>
             indexed_ids (snd (ingest_skills s skills_file))
               \<subseteq> dom (vector_store (snd (ingest_skills s skills_file))))
        \<and> (fst (ingest_materials s materials_file) = None \<longrightarrow>
             indexed_ids (snd (ingest_materials s materials_file))
               \<subseteq> dom (vector_store (snd (ingest_materials s materials_file)))))
   \<and> (let once = ingest_units empty_state [(''COMP1000'', comp1000)];
           corpus = vector_store (snd once)
       in fst once = None
          \<and> card (dom corpus) = 2
          \<and> map_option (\<lambda>d. metadata d ''type'') (corpus ''ad94d5be272840eb6a72cfffddad284f'')
              = Some (Some (PStr ''description''))
          \<and> map_option (\<lambda>d. metadata d ''type'') (corpus ''614c4a12cc8184b0fd738d910ff7f346'')
              = Some (Some (PStr ''learning_outcome''))
          \<and> ingest_units (snd once) [(''COMP1000'', comp1000)] = once
          \<and> dom (vector_store (snd (ingest_units (restart (snd once)) [(''COMP1000'', comp1000)]))) = dom corpus)"
proof (intro conjI impI)
  show "ingest_units (snd (ingest_units s units)) units = ingest_units s units"
    unfolding ingest_units_run by (simp add: run_twice)
  show "ingest_skills (snd (ingest_skills s skills_file)) skills_file = ingest_skills s skills_file"
    by (rule ingest_skills_twice)
  show "ingest_materials (snd (ingest_materials s materials_file)) materials_file
       = ingest_materials s materials_file"
    by (rule ingest_materials_twice)
next
  assume inv: "indexed_ids s \<subseteq> dom (vector_store s)"
  show "dom (vector_store (snd (ingest_units (restart (snd (ingest_units s units))) units)))
          = dom (vector_store (snd (ingest_units s units)))"
    unfolding ingest_units_run using inv by (rule run_restart)
  show "dom (vector_store (snd (ingest_skills (restart (snd (ingest_skills s skills_file))) skills_file)))
          = dom (vector_store (snd (ingest_skills s skills_file)))"
    using inv by (rule ingest_skills_restart)
  show "dom (vector_store (snd (ingest_materials (restart (snd (ingest_materials s materials_file))) materials_file)))
          = dom (vector_store (snd (ingest_materials s materials_file)))"
    using inv by (rule ingest_materials_restart)
  show "indexed_ids (snd (ingest_units s units)) \<subseteq> dom (vector_store (snd (ingest_units s units)))"
    if "fst (ingest_units s units) = None"
    using that ingest_invariant(1) [OF inv] by blast
  show "indexed_ids (snd (ingest_skills s skills_file))
               \<subseteq> dom (vector_store (snd (ingest_skills s skills_file)))"
    if "fst (ingest_skills s skills_file) = None"
    using that ingest_invariant(2) [OF inv] by blast
  show "indexed_ids (snd (ingest_materials s materials_file))
               \<subseteq> dom (vector_store (snd (ingest_materials s materials_file)))"
    if "fst (ingest_materials s materials_file) = None"
    using that ingest_invariant(3) [OF inv] by blast
next
  let ?us = "[(''COMP1000'', comp1000)]"
  let ?once = "ingest_units empty_state ?us"
  have twice: "ingest_units (snd ?once) ?us = ?once"
    unfolding ingest_units_run by (simp add: run_twice)
  have fresh: "dom (vector_store (snd (ingest_units (restart (snd ?once)) ?us))) = dom (vector_store (snd ?once))"
    unfolding ingest_units_run by (rule run_restart) (simp add: empty_state_def)
  have types:
    "map_option (\<lambda>d. metadata d ''type'') (vector_store (snd ?once) ''ad94d5be272840eb6a72cfffddad284f'')
       = Some (Some (PStr ''description''))"
    "map_option (\<lambda>d. metadata d ''type'') (vector_store (snd ?once) ''614c4a12cc8184b0fd738d910ff7f346'')
       = Some (Some (PStr ''learning_outcome''))"
    unfolding comp1000_ingest by (simp_all add: unit_metadata_def lo_metadata_def)
  have card: "card (dom (vector_store (snd ?once))) = 2"
    unfolding comp1000_ingest by simp
  show "let once = ?once; corpus = vector_store (snd once)
       in fst once = None
          \<and> card (dom corpus) = 2
          \<and> map_option (\<lambda>d. metadata d ''type'') (corpus ''ad94d5be272840eb6a72cfffddad284f'')
              = Some (Some (PStr ''description''))
          \<and> map_option (\<lambda>d. metadata d ''type'') (corpus ''614c4a12cc8184b0fd738d910ff7f346'')
              = Some (Some (PStr ''learning_outcome''))
          \<and> ingest_units (snd once) ?us = once
          \<and> dom (vector_store (snd (ingest_units (restart (snd once)) ?us))) = dom corpus"
    unfolding Let_def using twice fresh types card by (simp add: comp1000_ingest)
qed

lemma python_skill_document: "skill_document python_skill = Inr (python_skill_text, skill_md)"
  by (simp add: skill_document_def python_skill_def python_skill_text_def skill_md_def
      scalar_item_def list_item_def list_get_def)

lemma sql_skill_document: "skill_document sql_skill_no_description = Inl (KeyError ''description'')"
  by (simp add: skill_document_def sql_skill_no_description_def scalar_item_def list_item_def)

lemma python_skill_id: "generate_doc_id python_skill_text skill_md = ''716d4042cf503d99d2ab084aab86c9b3''"
  by code_simp

lemma failed_ingest:
  "ingest_skills empty_state (Some [python_skill, sql_skill_no_description])
     = (Some (KeyError ''description''),
        \<lparr>indexed_ids = {''716d4042cf503d99d2ab084aab86c9b3''}, vector_store = Map.empty\<rparr>)"
  by (simp add: ingest_skills_def empty_state_def python_skill_document sql_skill_document
      stage_def Let_def python_skill_id finish_def)

lemma python_skill_ingest:
  "ingest_skills s (Some [python_skill])
     = (None,
        if ''716d4042cf503d99d2ab084aab86c9b3'' \<in> indexed_ids s then s
        else \<lparr>indexed_ids = insert ''716d4042cf503d99d2ab084aab86c9b3'' (indexed_ids s),
              vector_store = (vector_store s)(''716d4042cf503d99d2ab084aab86c9b3'' \<mapsto>
                \<lparr>page_content = python_skill_text, metadata = skill_md,
                 doc_id = ''716d4042cf503d99d2ab084aab86c9b3''\<rparr>)\<rparr>)"
  by (simp add: ingest_skills_def python_skill_document stage_def Let_def python_skill_id finish_def
      add_documents_def)

text \<open>
  After an ingest that raised, an id is in the set of ids and not in the collection.
  From that state one ingest of the well-formed record leaves the collection empty,
  and a second one in a fresh process adds the record.
\<close>

theorem ingestion_after_failure_counterexample:
  "failed_state = \<lparr>indexed_ids = {''716d4042cf503d99d2ab084aab86c9b3''}, vector_store = Map.empty\<rparr>
   \<and> dom (vector_store (snd (ingest_skills failed_state (Some [python_skill])))) = {}
   \<and> dom (vector_store (snd (ingest_skills (restart (snd (ingest_skills failed_state (Some [python_skill]))))
                                  (Some [python_skill]))))
       = {''716d4042cf503d99d2ab084aab86c9b3''}"
proof -
  have f: "failed_state = \<lparr>indexed_ids = {''716d4042cf503d99d2ab084aab86c9b3''}, vector_store = Map.empty\<rparr>"
    by (simp add: failed_state_def failed_ingest)
  have once: "snd (ingest_skills failed_state (Some [python_skill])) = failed_state"
    unfolding python_skill_ingest by (simp add: f)
  show ?thesis
    unfolding once unfolding python_skill_ingest by (simp add: f restart_def)
qed

theorem ingestion_idempotent_witness:
  "indexed_ids (snd (ingest_units empty_state [(''COMP1000'', comp1000)]))
     \<subseteq> dom (vector_store (snd (ingest_units empty_state [(''COMP1000'', comp1000)])))
   \<and> indexed_ids (snd (ingest_units empty_state [(''COMP1000'', comp1000)]))
       = {''ad94d5be272840eb6a72cfffddad284f'', ''614c4a12cc8184b0fd738d910ff7f346''}
   \<and> dom (vector_store (snd (ingest_skills
          (restart (snd (ingest_skills (snd (ingest_units empty_state [(''COMP1000'', comp1000)]))
                                       (Some [python_skill]))))
          (Some [python_skill]))))
       = {''ad94d5be272840eb6a72cfffddad284f'', ''614c4a12cc8184b0fd738d910ff7f346'',
          ''716d4042cf503d99d2ab084aab86c9b3''}"
proof -
  let ?s = "snd (ingest_units empty_state [(''COMP1000'', comp1000)])"
  have ids: "indexed_ids ?s = {''ad94d5be272840eb6a72cfffddad284f'', ''614c4a12cc8184b0fd738d910ff7f346''}"
    unfolding comp1000_ingest by simp
  have d: "dom (vector_store ?s) = {''ad94d5be272840eb6a72cfffddad284f'', ''614c4a12cc8184b0fd738d910ff7f346''}"
    unfolding comp1000_ingest by auto
  have inv: "indexed_ids ?s \<subseteq> dom (vector_store ?s)"
    unfolding ids d by simp
  have once: "dom (vector_store (snd (ingest_skills ?s (Some [python_skill]))))
       = {''ad94d5be272840eb6a72cfffddad284f'', ''614c4a12cc8184b0fd738d910ff7f346'',
          ''716d4042cf503d99d2ab084aab86c9b3''}"
    unfolding python_skill_ingest using ids d by auto
  from ingestion_idempotent [of ?s "[(''COMP1000'', comp1000)]" "Some [python_skill]" None] inv ids once
  show ?thesis by simp
qed

section \<open>Properties of the document identity\<close>

lemma length_md5_hexdigest: "length (md5_hexdigest bs) = 32"
  by (simp add: md5_hexdigest_def le_bytes32_def hex_byte_def split: prod.splits)

text \<open>
  Claim C3, as amended.  The id of a document is a function of the unit code, the type
  and the first 100 characters of the content: two calls that agree on these three
  return the same id, whatever the rest of the content and of the metadata.  The id is
  a string of 32 hexadecimal digits.
\<close>

theorem generate_doc_id_prefix:
  "(md_get md1 ''unit_code'' = md_get md2 ''unit_code'' \<and> md_get md1 ''type'' = md_get md2 ''type''
      \<and> take 100 c1 = take 100 c2
    \<longrightarrow> generate_doc_id c1 md1 = generate_doc_id c2 md2)
   \<and> length (generate_doc_id c1 md1) = 32"
  by (simp add: generate_doc_id_def length_md5_hexdigest)

theorem generate_doc_id_prefix_witness:
  "md_get skill_md ''unit_code'' = md_get (skill_md(''skill_name'' \<mapsto> PStr ''SQL'')) ''unit_code''
   \<and> md_get skill_md ''type'' = md_get (skill_md(''skill_name'' \<mapsto> PStr ''SQL'')) ''type''
   \<and> take 100 (replicate 120 (CHR ''s'') @ ''Python'') = take 100 (replicate 120 (CHR ''s'') @ ''SQL'')
   \<and> generate_doc_id (replicate 120 (CHR ''s'') @ ''Python'') skill_md
       = generate_doc_id (replicate 120 (CHR ''s'') @ ''SQL'') (skill_md(''skill_name'' \<mapsto> PStr ''SQL''))"
proof -
  have a: "md_get skill_md ''unit_code'' = md_get (skill_md(''skill_name'' \<mapsto> PStr ''SQL'')) ''unit_code''"
    by (simp add: md_get_def skill_md_def)
  have b: "md_get skill_md ''type'' = md_get (skill_md(''skill_name'' \<mapsto> PStr ''SQL'')) ''type''"
    by (simp add: md_get_def skill_md_def)
  have c: "take 100 (replicate 120 (CHR ''s'') @ ''Python'') = take 100 (replicate 120 (CHR ''s'') @ ''SQL'')"
    by simp
  from generate_doc_id_prefix [of skill_md "skill_md(''skill_name'' \<mapsto> PStr ''SQL'')"
        "replicate 120 (CHR ''s'') @ ''Python''" "replicate 120 (CHR ''s'') @ ''SQL''"] a b c
  show ?thesis by blast
qed

text \<open>
  Two contents that differ after their first 100 characters, with no unit code in the
  metadata, have one id.
\<close>

theorem doc_id_distinct_content_counterexample:
  "skill_md ''unit_code'' = None
   \<and> replicate 100 (CHR ''a'') @ ''x'' \<noteq> replicate 100 (CHR ''a'') @ ''y''
   \<and> generate_doc_id (replicate 100 (CHR ''a'') @ ''x'') skill_md
       = generate_doc_id (replicate 100 (CHR ''a'') @ ''y'') skill_md"
  by (simp add: generate_doc_id_def skill_md_def)

section \<open>Records that lack a field\<close>

lemma record_candidates_error:
  "\<exists>item \<in> set items. \<exists>e. mk item = Inl e \<Longrightarrow> fst (record_candidates mk items) \<noteq> None"
  by (induction items) (auto split: sum.splits)

lemma run_error: "e \<noteq> None \<Longrightarrow> fst (run s e cs) = e \<and> vector_store (snd (run s e cs)) = vector_store s"
  by (cases "stage_all cs (indexed_ids s, [])"; cases e) (auto simp: run_def finish_def)

lemma skill_document_error:
  "scalar_fields item ''skill'' = None \<or> list_fields item ''roles'' = None \<or> scalar_fields item ''description'' = None
   \<Longrightarrow> \<exists>e. skill_document item = Inl e"
  by (auto simp: skill_document_def scalar_item_def list_item_def split: option.splits)

lemma material_document_error:
  "scalar_fields item ''title'' = None \<or> scalar_fields item ''type'' = None
     \<or> scalar_fields item ''description'' = None \<or> scalar_fields item ''url'' = None
   \<Longrightarrow> \<exists>e. material_document item = Inl e"
  by (auto simp: material_document_def scalar_item_def split: option.splits)

text \<open>
  Claim C8, as amended.  When a record of the skills file or of the materials file lacks
  a required field, the ingest function ends with the \<^verbatim>\<open>KeyError\<close> and the
  collection is left as it was: no record of that batch is submitted.
\<close>

theorem malformed_record_aborts:
  "((\<exists>item \<in> set skills_data. scalar_fields item ''skill'' = None \<or> list_fields item ''roles'' = None
                               \<or> scalar_fields item ''description'' = None)
    \<longrightarrow> fst (ingest_skills s (Some skills_data)) \<noteq> None
        \<and> vector_store (snd (ingest_skills s (Some skills_data))) = vector_store s)
   \<and> ((\<exists>item \<in> set materials_data. scalar_fields item ''title'' = None \<or> scalar_fields item ''type'' = None
                               \<or> scalar_fields item ''description'' = None \<or> scalar_fields item ''url'' = None)
    \<longrightarrow> fst (ingest_materials s (Some materials_data)) \<noteq> None
        \<and> vector_store (snd (ingest_materials s (Some materials_data))) = vector_store s)"
proof (intro conjI impI)
  assume "\<exists>item \<in> set skills_data. scalar_fields item ''skill'' = None \<or> list_fields item ''roles'' = None
                               \<or> scalar_fields item ''description'' = None"
  then have "\<exists>item \<in> set skills_data. \<exists>e. skill_document item = Inl e"
    using skill_document_error by blast
  then have e: "fst (record_candidates skill_document skills_data) \<noteq> None"
    by (rule record_candidates_error)
  show "fst (ingest_skills s (Some skills_data)) \<noteq> None"
    unfolding ingest_skills_run using run_error [OF e] e by simp
  show "vector_store (snd (ingest_skills s (Some skills_data))) = vector_store s"
    unfolding ingest_skills_run using run_error [OF e] e by simp
next
  assume "\<exists>item \<in> set materials_data. scalar_fields item ''title'' = None \<or> scalar_fields item ''type'' = None
                               \<or> scalar_fields item ''description'' = None \<or> scalar_fields item ''url'' = None"
  then have "\<exists>item \<in> set materials_data. \<exists>e. material_document item = Inl e"
    using material_document_error by blast
  then have e: "fst (record_candidates material_document materials_data) \<noteq> None"
    by (rule record_candidates_error)
  show "fst (ingest_materials s (Some materials_data)) \<noteq> None"
    unfolding ingest_materials_run using run_error [OF e] e by simp
  show "vector_store (snd (ingest_materials s (Some materials_data))) = vector_store s"
    unfolding ingest_materials_run using run_error [OF e] e by simp
qed

text \<open>
  A well-formed skill record alone reaches the collection; followed by a record without
  its description, it does not.
\<close>

theorem malformed_record_counterexample:
  "fst (ingest_skills empty_state (Some [python_skill])) = None
   \<and> vector_store (snd (ingest_skills empty_state (Some [python_skill]))) \<noteq> Map.empty
   \<and> fst (ingest_skills empty_state (Some [python_skill, sql_skill_no_description]))
       = Some (KeyError ''description'')
   \<and> vector_store (snd (ingest_skills empty_state (Some [python_skill, sql_skill_no_description])))
       = Map.empty"
  by (simp add: ingest_skills_def empty_state_def skill_document_def python_skill_def
      sql_skill_no_description_def scalar_item_def list_item_def list_get_def stage_def Let_def
      finish_def add_documents_def)

theorem malformed_record_aborts_witness:
  "(\<exists>item \<in> set [python_skill, sql_skill_no_description].
       scalar_fields item ''skill'' = None \<or> list_fields item ''roles'' = None \<or> scalar_fields item ''description'' = None)
   \<and> fst (ingest_skills empty_state (Some [python_skill, sql_skill_no_description])) \<noteq> None
   \<and> vector_store (snd (ingest_skills empty_state (Some [python_skill, sql_skill_no_description])))
       = vector_store empty_state
   \<and> (\<exists>item \<in> set [python_skill\<lparr>list_fields := Map.empty\<rparr>].
       scalar_fields item ''title'' = None \<or> scalar_fields item ''type'' = None
       \<or> scalar_fields item ''description'' = None \<or> scalar_fields item ''url'' = None)
   \<and> fst (ingest_materials empty_state (Some [python_skill\<lparr>list_fields := Map.empty\<rparr>])) \<noteq> None"
proof -
  have a: "\<exists>item \<in> set [python_skill, sql_skill_no_description].
       scalar_fields item ''skill'' = None \<or> list_fields item ''roles'' = None \<or> scalar_fields item ''description'' = None"
    by (simp add: sql_skill_no_description_def)
  have b: "\<exists>item \<in> set [python_skill\<lparr>list_fields := Map.empty\<rparr>].
       scalar_fields item ''title'' = None \<or> scalar_fields item ''type'' = None
       \<or> scalar_fields item ''description'' = None \<or> scalar_fields item ''url'' = None"
    by (simp add: python_skill_def)
  from malformed_record_aborts [of "[python_skill, sql_skill_no_description]" empty_state
         "[python_skill\<lparr>list_fields := Map.empty\<rparr>]"] a b
  show ?thesis by blast
qed

section \<open>Properties of the query\<close>

lemma results_loop_dedup:
  "int (length acc) < k \<Longrightarrow>
   results_loop k cs seen acc = acc @ map format_result (take (nat k - length acc) (dedup_candidates cs seen))"
proof (induction cs arbitrary: seen acc)
  case Nil
  then show ?case by simp
next
  case (Cons c cs)
  show ?case
  proof (cases "content_hash (fst c) \<in> seen")
    case True
    with Cons show ?thesis by (simp add: Let_def)
  next
    case False
    show ?thesis
    proof (cases "k \<le> int (length acc) + 1")
      case True
      with Cons.prems have "nat k - length acc = 1" by linarith
      with True False show ?thesis by (simp add: Let_def)
    next
      case stop: False
      then have "int (length (acc @ [format_result c])) < k" by simp
      from Cons.IH [OF this, of "insert (content_hash (fst c)) seen"] stop False Cons.prems
      have "results_loop k (c # cs) seen acc =
            acc @ format_result c # map format_result (take (nat k - Suc (length acc))
                    (dedup_candidates cs (insert (content_hash (fst c)) seen)))"
        by (simp add: Let_def)
      moreover have "nat k - length acc = Suc (nat k - Suc (length acc))"
        using stop by linarith
      ultimately show ?thesis using False by simp
    qed
  qed
qed

lemma results_loop_first:
  "k \<le> 0 \<Longrightarrow> results_loop k cs {} [] = map format_result (take 1 (dedup_candidates cs {}))"
  by (cases cs) (simp_all add: Let_def)

lemma results_loop_start:
  "results_loop k cs {} [] = map format_result (take (nat (max 1 k)) (dedup_candidates cs {}))"
proof (cases "k \<le> 0")
  case True
  then have "nat (max 1 k) = 1" by simp
  with True show ?thesis by (simp add: results_loop_first)
next
  case False
  then have "int (length ([] :: query_result list)) < k" by simp
  from results_loop_dedup [OF this] False show ?thesis by (simp add: max_def)
qed

lemma set_dedup_candidates: "set (dedup_candidates cs seen) \<subseteq> set cs"
  by (induction cs arbitrary: seen) auto

lemma subseq_dedup_candidates: "subseq (dedup_candidates cs seen) cs"
  by (induction cs arbitrary: seen) auto

lemma sorted_wrt_dedup_candidates: "sorted_wrt P cs \<Longrightarrow> sorted_wrt P (dedup_candidates cs seen)"
proof (induction cs arbitrary: seen)
  case Nil
  then show ?case by simp
next
  case (Cons c cs)
  then show ?case using set_dedup_candidates by (fastforce simp: subset_iff)
qed

lemma hashes_dedup_candidates:
  "distinct (map (\<lambda>c. content_hash (fst c)) (dedup_candidates cs seen))
   \<and> (\<forall>c \<in> set (dedup_candidates cs seen). content_hash (fst c) \<notin> seen)"
proof (induction cs arbitrary: seen)
  case Nil
  then show ?case by simp
next
  case (Cons c cs)
  from Cons [of seen] Cons [of "insert (content_hash (fst c)) seen"]
  show ?case by auto
qed

lemma distinct_contents:
  assumes "distinct (map (\<lambda>c. content_hash (fst c)) xs)"
  shows "distinct (map (\<lambda>c. page_content (fst c)) xs)"
proof -
  have "map (\<lambda>c. content_hash (fst c)) xs = map (\<lambda>t. md5_hexdigest (encode t)) (map (\<lambda>c. page_content (fst c)) xs)"
    by (simp add: content_hash_def)
  with assms show ?thesis by (metis distinct_map)
qed

lemma dedup_candidates_drop:
  "content_hash (fst c) \<in> seen \<union> (\<lambda>c. content_hash (fst c)) ` set xs \<Longrightarrow>
   dedup_candidates (xs @ c # ys) seen = dedup_candidates (xs @ ys) seen"
  by (induction xs arbitrary: seen) auto

lemma content_format_result [simp]:
  "content (format_result c) = page_content (fst c)"
  "result_metadata (format_result c) = metadata (fst c)"
  "distance (format_result c) = py_round (snd c) 4"
  "similarity_percent (format_result c) = normalize_score (snd c)"
  by (simp_all add: format_result_def split: prod.splits)

lemma query_results:
  "fst (query search s q k fs ft fu) =
     map format_result (take (nat (max 1 k)) (dedup_candidates (candidates search s q k fs ft fu) {}))"
  by (simp add: query_def results_loop_start)



lemma subseq_take_dedup: "subseq (take n (dedup_candidates cs seen)) cs"
proof -
  have "subseq (take n (dedup_candidates cs seen)) (dedup_candidates cs seen)"
    by (metis append_take_drop_id list_emb_append_mono list_emb_Nil subseq_order.order_refl append_Nil2)
  then show ?thesis
    using subseq_dedup_candidates subseq_order.order_trans by blast
qed

lemma query_result_candidate:
  "r \<in> set (fst (query search s q k fs ft fu)) \<Longrightarrow>
   \<exists>c \<in> set (candidates search s q k fs ft fu). r = format_result c"
  unfolding query_results
  using set_dedup_candidates [of "candidates search s q k fs ft fu" "{}"]
  by (auto dest!: in_set_takeD)

text \<open>
  Claim C4.  When the index returns at most the \<open>2k\<close> candidates it is asked for,
  a query returns at most \<open>k\<close> results; when the candidates come in non-decreasing
  distance, so do the results; and the results are the formatted entries of a
  subsequence of the candidates, in the order of the index.
\<close>

theorem query_cap_and_order:
  "(int (length (candidates search s q k fs ft fu)) \<le> 2 * k
      \<longrightarrow> int (length (fst (query search s q k fs ft fu))) \<le> k)
   \<and> (sorted (map snd (candidates search s q k fs ft fu))
      \<longrightarrow> sorted (map distance (fst (query search s q k fs ft fu))))
   \<and> (\<exists>cs. subseq cs (candidates search s q k fs ft fu)
            \<and> fst (query search s q k fs ft fu) = map format_result cs)"
proof (intro conjI impI)
  let ?cs = "candidates search s q k fs ft fu"
  show "int (length (fst (query search s q k fs ft fu))) \<le> k" if c: "int (length ?cs) \<le> 2 * k"
  proof (cases "1 \<le> k")
    case True
    then show ?thesis by (simp add: query_results)
  next
    case False
    with c have "length ?cs = 0" by linarith
    then have "?cs = []" by simp
    with c show ?thesis by (simp add: query_results)
  qed
  show "sorted (map distance (fst (query search s q k fs ft fu)))" if "sorted (map snd ?cs)"
  proof -
    from that have "sorted_wrt (\<lambda>x y. snd x \<le> snd y) ?cs"
      by (simp add: sorted_map)
    then have "sorted_wrt (\<lambda>x y. py_round (snd x) 4 \<le> py_round (snd y) 4) ?cs"
      by (rule sorted_wrt_mono_rel [rotated]) (simp add: py_round_mono)
    then have "sorted_wrt (\<lambda>x y. py_round (snd x) 4 \<le> py_round (snd y) 4)
                 (take (nat (max 1 k)) (dedup_candidates ?cs {}))"
      by (intro sorted_wrt_take sorted_wrt_dedup_candidates)
    then show ?thesis
      by (simp add: query_results sorted_map comp_def)
  qed
  show "\<exists>cs. subseq cs ?cs \<and> fst (query search s q k fs ft fu) = map format_result cs"
    using subseq_take_dedup query_results by blast
qed

text \<open>
  Claim C6.  The contents of the results of a query are pairwise distinct.  The results
  are the candidates walked in the order returned, a candidate skipped when its content
  hash was accepted before, up to \<open>k\<close> accepted.  Of two candidates with one content
  the later never counts: the results are those of the candidates without it.
\<close>

theorem query_dedup:
  "distinct (map content (fst (query search s q k fs ft fu)))
   \<and> (int (length (candidates search s q k fs ft fu)) \<le> 2 * k \<longrightarrow>
        fst (query search s q k fs ft fu)
          = map format_result (take (nat k) (dedup_candidates (candidates search s q k fs ft fu) {})))
   \<and> (candidates search s q k fs ft fu = pre @ c1 # mid @ c2 # post
        \<and> page_content (fst c1) = page_content (fst c2) \<longrightarrow>
        fst (query search s q k fs ft fu) = results_loop k (pre @ c1 # mid @ post) {} [])"
proof (intro conjI impI)
  let ?cs = "candidates search s q k fs ft fu"
  have "distinct (map (\<lambda>c. page_content (fst c)) (dedup_candidates ?cs {}))"
    using hashes_dedup_candidates distinct_contents by blast
  then have "distinct (map (\<lambda>c. page_content (fst c)) (take (nat (max 1 k)) (dedup_candidates ?cs {})))"
    by (simp add: distinct_take flip: take_map)
  then show "distinct (map content (fst (query search s q k fs ft fu)))"
    by (simp add: query_results comp_def)
  show "fst (query search s q k fs ft fu) = map format_result (take (nat k) (dedup_candidates ?cs {}))"
    if c: "int (length ?cs) \<le> 2 * k"
  proof (cases "1 \<le> k")
    case True
    then show ?thesis by (simp add: query_results max_def)
  next
    case False
    with c have "length ?cs = 0" by linarith
    then have "?cs = []" by simp
    then show ?thesis by (simp add: query_results)
  qed
  show "fst (query search s q k fs ft fu) = results_loop k (pre @ c1 # mid @ post) {} []"
    if "?cs = pre @ c1 # mid @ c2 # post \<and> page_content (fst c1) = page_content (fst c2)"
  proof -
    from that have h: "content_hash (fst c2) = content_hash (fst c1)"
      by (simp add: content_hash_def)
    have "dedup_candidates ((pre @ c1 # mid) @ c2 # post) {} = dedup_candidates ((pre @ c1 # mid) @ post) {}"
      by (rule dedup_candidates_drop) (simp add: h)
    with that show ?thesis
      by (simp add: query_results results_loop_start)
  qed
qed


lemma where_filter_set:
  "(key, v) \<in> set (where_filter fs ft fu) \<longleftrightarrow>
     v \<noteq> [] \<and> (key = ''source'' \<and> fs = Some v \<or> key = ''type'' \<and> ft = Some v
                \<or> key = ''unit_code'' \<and> fu = Some v)"
  by (auto simp: where_filter_def filter_entry_def split: option.splits)

text \<open>
  Claim C5, as amended.  The filter has a pair for exactly the filter parameters that
  are given and not empty.  When the index returns only documents that match the filter
  it is given, the metadata of every result matches every pair of the filter; with the
  type filter \<open>skill\<close> every result has the type \<open>skill\<close>.
\<close>

theorem query_filter:
  "((key, v) \<in> set (where_filter fs ft fu) \<longleftrightarrow>
     v \<noteq> [] \<and> (key = ''source'' \<and> fs = Some v \<or> key = ''type'' \<and> ft = Some v
                \<or> key = ''unit_code'' \<and> fu = Some v))
   \<and> ((\<forall>flt. \<forall>c \<in> set (search (vector_store s) (expand_query q) (k * 2) (Some flt)).
          matches flt (metadata (fst c)))
       \<longrightarrow> (\<forall>r \<in> set (fst (query search s q k fs ft fu)).
              matches (where_filter fs ft fu) (result_metadata r)
              \<and> (ft = Some ''skill'' \<longrightarrow> result_metadata r ''type'' = Some (PStr ''skill''))))"
proof (intro conjI impI ballI)
  show "(key, v) \<in> set (where_filter fs ft fu) \<longleftrightarrow>
     v \<noteq> [] \<and> (key = ''source'' \<and> fs = Some v \<or> key = ''type'' \<and> ft = Some v
                \<or> key = ''unit_code'' \<and> fu = Some v)"
    by (rule where_filter_set)
next
  fix r
  assume honours: "\<forall>flt. \<forall>c \<in> set (search (vector_store s) (expand_query q) (k * 2) (Some flt)).
          matches flt (metadata (fst c))"
    and r: "r \<in> set (fst (query search s q k fs ft fu))"
  from r obtain c where c: "c \<in> set (candidates search s q k fs ft fu)" "r = format_result c"
    using query_result_candidate by blast
  show m: "matches (where_filter fs ft fu) (result_metadata r)"
  proof (cases "where_filter fs ft fu = []")
    case True
    then show ?thesis by (simp add: matches_def)
  next
    case False
    with c(1) have "c \<in> set (search (vector_store s) (expand_query q) (k * 2) (Some (where_filter fs ft fu)))"
      by (simp add: candidates_def)
    with honours c(2) show ?thesis by auto
  qed
  show "result_metadata r ''type'' = Some (PStr ''skill'')" if "ft = Some ''skill''"
  proof -
    from that have "(''type'', ''skill'') \<in> set (where_filter fs ft fu)"
      by (simp add: where_filter_set)
    with m show ?thesis by (auto simp: matches_def)
  qed
qed

lemma python_doc_hash: "content_hash python_doc = ''05e8798b6bc883d057117069b53f7cfe''"
  by code_simp

lemma python_doc_hash': "content_hash (python_doc\<lparr>doc_id := ''1''\<rparr>) = ''05e8798b6bc883d057117069b53f7cfe''"
  using python_doc_hash by (simp add: content_hash_def)

lemma intro_doc_hash: "content_hash intro_doc = ''429d67395cf1bcacdef4b8172ab73b49''"
  by code_simp

lemma listed_index_honours:
  "\<forall>flt. \<forall>c \<in> set (listed_index corpus store query_text n (Some flt)). matches flt (metadata (fst c))"
  by (auto simp: listed_index_def dest: in_set_takeD)

lemma sample_candidates:
  "candidates (listed_index sample_corpus) empty_state ''x'' 2 None None None = sample_corpus"
  by (simp add: candidates_def where_filter_def filter_entry_def listed_index_def sample_corpus_def)

lemma sample_query:
  "fst (query (listed_index sample_corpus) empty_state ''x'' 2 None None None)
     = [format_result (python_doc, 1 / 4), format_result (intro_doc, 3 / 4)]"
  unfolding query_def Let_def sample_candidates
  by (simp add: sample_corpus_def python_doc_hash python_doc_hash' intro_doc_hash)

lemma distance_quarter: "py_round (1 / 4) 4 = 1 / 4" "py_round (3 / 4) 4 = 3 / 4"
  by (simp_all add: py_round_def round_half_even_def)

theorem query_cap_and_order_witness:
  "int (length (candidates (listed_index sample_corpus) empty_state ''x'' 2 None None None)) \<le> 2 * 2
   \<and> sorted (map snd (candidates (listed_index sample_corpus) empty_state ''x'' 2 None None None))
   \<and> int (length (fst (query (listed_index sample_corpus) empty_state ''x'' 2 None None None))) \<le> 2
   \<and> sorted (map distance (fst (query (listed_index sample_corpus) empty_state ''x'' 2 None None None)))
   \<and> map distance (fst (query (listed_index sample_corpus) empty_state ''x'' 2 None None None)) = [1 / 4, 3 / 4]"
proof -
  have a: "int (length (candidates (listed_index sample_corpus) empty_state ''x'' 2 None None None)) \<le> 2 * 2"
    unfolding sample_candidates by (simp add: sample_corpus_def)
  have b: "sorted (map snd (candidates (listed_index sample_corpus) empty_state ''x'' 2 None None None))"
    unfolding sample_candidates by (simp add: sample_corpus_def)
  have c: "map distance (fst (query (listed_index sample_corpus) empty_state ''x'' 2 None None None)) = [1 / 4, 3 / 4]"
    by (simp add: sample_query distance_quarter)
  from query_cap_and_order [of "listed_index sample_corpus" empty_state "''x''" 2 None None None] a b c
  show ?thesis by blast
qed

theorem query_dedup_witness:
  "int (length (candidates (listed_index sample_corpus) empty_state ''x'' 2 None None None)) \<le> 2 * 2
   \<and> candidates (listed_index sample_corpus) empty_state ''x'' 2 None None None
       = [] @ (python_doc, 1 / 4) # [] @ (python_doc\<lparr>doc_id := ''1''\<rparr>, 1 / 2) # [(intro_doc, 3 / 4)]
   \<and> page_content (fst (python_doc, 1 / 4 :: real)) = page_content (fst (python_doc\<lparr>doc_id := ''1''\<rparr>, 1 / 2 :: real))
   \<and> fst (query (listed_index sample_corpus) empty_state ''x'' 2 None None None)
       = results_loop 2 ([] @ (python_doc, 1 / 4) # [] @ [(intro_doc, 3 / 4)]) {} []
   \<and> map content (fst (query (listed_index sample_corpus) empty_state ''x'' 2 None None None))
       = [''Skill: Python'', ''Title: Intro'']"
proof -
  have a: "int (length (candidates (listed_index sample_corpus) empty_state ''x'' 2 None None None)) \<le> 2 * 2"
    unfolding sample_candidates by (simp add: sample_corpus_def)
  have b: "candidates (listed_index sample_corpus) empty_state ''x'' 2 None None None
       = [] @ (python_doc, 1 / 4) # [] @ (python_doc\<lparr>doc_id := ''1''\<rparr>, 1 / 2) # [(intro_doc, 3 / 4)]"
    unfolding sample_candidates by (simp add: sample_corpus_def)
  have c: "page_content (fst (python_doc, 1 / 4 :: real)) = page_content (fst (python_doc\<lparr>doc_id := ''1''\<rparr>, 1 / 2 :: real))"
    by simp
  have d: "map content (fst (query (listed_index sample_corpus) empty_state ''x'' 2 None None None))
       = [''Skill: Python'', ''Title: Intro'']"
    by (simp add: sample_query python_doc_def intro_doc_def)
  from query_dedup [of "listed_index sample_corpus" empty_state "''x''" 2 None None None
        "[]" "(python_doc, 1 / 4)" "[]" "(python_doc\<lparr>doc_id := ''1''\<rparr>, 1 / 2)" "[(intro_doc, 3 / 4)]"] a b c d
  show ?thesis by blast
qed

lemma single_query:
  "fst (query (listed_index [(python_doc, d)]) empty_state ''x'' 5 fs ft None)
     = (if (case ft of None \<Rightarrow> True | Some t \<Rightarrow> t = [] \<or> t = ''skill'')
           \<and> (case fs of None \<Rightarrow> True | Some t \<Rightarrow> t = [] \<or> t = ''skills_mapping'')
        then [format_result (python_doc, d)] else [])"
  by (auto simp: query_def candidates_def where_filter_def filter_entry_def listed_index_def
      matches_def python_doc_def skill_md_def Let_def split: option.splits)



text \<open>
  The type filter given as the empty string makes no filter: the index, which has no
  document of type \<open>''\<close>, is searched unfiltered and a document of type \<open>skill\<close>
  is returned.
\<close>

theorem query_filter_counterexample:
  "where_filter None (Some '''') None = []
   \<and> listed_index [(python_doc, 1 / 4)] Map.empty ''x'' 10 (Some [(''type'', '''')]) = []
   \<and> map (\<lambda>r. result_metadata r ''type'')
        (fst (query (listed_index [(python_doc, 1 / 4)]) empty_state ''x'' 5 None (Some '''') None))
       = [Some (PStr ''skill'')]"
  unfolding single_query
  by (simp add: where_filter_def filter_entry_def listed_index_def matches_def
      python_doc_def skill_md_def)

theorem query_filter_witness:
  "(''type'', ''skill'') \<in> set (where_filter None (Some ''skill'') None)
   \<and> format_result (python_doc, 1 / 4)
       \<in> set (fst (query (listed_index [(python_doc, 1 / 4)]) empty_state ''x'' 5 None (Some ''skill'') None))
   \<and> matches (where_filter None (Some ''skill'') None) (result_metadata (format_result (python_doc, 1 / 4)))
   \<and> result_metadata (format_result (python_doc, 1 / 4)) ''type'' = Some (PStr ''skill'')
   \<and> fst (query (listed_index [(intro_doc, 1 / 4)]) empty_state ''x'' 5 None (Some ''skill'') None) = []"
proof -
  have a: "format_result (python_doc, 1 / 4)
       \<in> set (fst (query (listed_index [(python_doc, 1 / 4)]) empty_state ''x'' 5 None (Some ''skill'') None))"
    by (simp add: single_query)
  have b: "fst (query (listed_index [(intro_doc, 1 / 4)]) empty_state ''x'' 5 None (Some ''skill'') None) = []"
    by (simp add: query_def candidates_def where_filter_def filter_entry_def listed_index_def
      matches_def intro_doc_def)
  from query_filter [of "''type''" "''skill''" None "Some ''skill''" None "listed_index [(python_doc, 1 / 4)]"
         empty_state "''x''" 5]
    listed_index_honours [of "[(python_doc, 1 / 4)]"] a b
  show ?thesis by blast
qed

section \<open>Properties of the expansion\<close>








lemma split_Nil [simp]: "split [] sep = [[]]"
  by (simp add: split.simps)

lemma split_not_Nil [simp]: "split s sep \<noteq> []"
  by (induction s sep rule: split.induct) (subst split.simps, auto split: list.splits)




















text \<open>
  Claim C10.  A query leaves the state as it finds it: the set of ids and the collection
  are unchanged, for every index and all arguments.
\<close>

theorem query_read_only:
  "snd (query search s query_text k filter_source filter_type filter_unit_code) = s
   \<and> indexed_ids (snd (query search s query_text k filter_source filter_type filter_unit_code)) = indexed_ids s
   \<and> vector_store (snd (query search s query_text k filter_source filter_type filter_unit_code)) = vector_store s"
  by (simp add: query_def Let_def)

end
